theory Spec2Isabelle
  imports Main
begin

section \<open>JavaScript values and strings\<close>

text \<open>
  The query compiler (class \<open>Builder\<close>) works on untyped JavaScript values: a query is
  an object whose keys are field names or operators. Values are modelled by \<open>jsval\<close>;
  an object is the list of its own enumerable properties in \<open>for ... in\<close> order (keys
  are distinct in a well-formed object), a number is an integer, a \<open>Date\<close> is its epoch
  milliseconds and a \<open>RegExp\<close> is its source.
\<close>

datatype jsval =
    JUndefined
  | JNull
  | JBool bool
  | JNum int
  | JStr string
  | JDate int
  | JRegExp string
  | JArr "jsval list"
  | JObj "(string \<times> jsval) list"

text \<open>
  \<open>TypeError\<close> is the exception JavaScript raises (also by \<open>throw new TypeError\<close>);
  \<open>StorageError\<close> is an error of the database engine, with its message;
  \<open>NotModelled\<close> marks an input outside the TypeScript parameter types whose
  JavaScript behaviour the model does not follow.
\<close>

datatype error = TypeError | StorageError string | NotModelled

text \<open>\<open>Array.prototype.join\<close> on an array of strings.\<close>

fun join :: "string \<Rightarrow> string list \<Rightarrow> string" where
  "join sep [] = []"
| "join sep [x] = x"
| "join sep (x # y # ys) = x @ sep @ join sep (y # ys)"

text \<open>\<open>String.prototype.split\<close> with a one-character separator.\<close>

fun split_on :: "char \<Rightarrow> string \<Rightarrow> string list" where
  "split_on c [] = [[]]"
| "split_on c (x # xs) =
     (if x = c then [] # split_on c xs
      else (case split_on c xs of
              [] \<Rightarrow> [[x]]
            | w # ws \<Rightarrow> (x # w) # ws))"

text \<open>\<open>String.prototype.startsWith\<close>.\<close>

definition startsWith :: "string \<Rightarrow> string \<Rightarrow> bool" where
  "startsWith s p = (take (length p) s = p)"

text \<open>JavaScript truthiness (\<open>!!v\<close>).\<close>

fun truthy :: "jsval \<Rightarrow> bool" where
  "truthy JUndefined = False"
| "truthy JNull = False"
| "truthy (JBool b) = b"
| "truthy (JNum n) = (n \<noteq> 0)"
| "truthy (JStr s) = (s \<noteq> [])"
| "truthy (JDate _) = True"
| "truthy (JRegExp _) = True"
| "truthy (JArr _) = True"
| "truthy (JObj _) = True"

text \<open>
  The operator tables are plain objects, so \<open>prop in this.queryOperators\<close> also holds
  for the property names inherited from \<open>Object.prototype\<close>. None of them is an
  operator; the model returns \<open>NotModelled\<close> for them.
\<close>

definition objectProtoProps :: "string list" where
  "objectProtoProps =
     [''constructor'', ''__defineGetter__'', ''__defineSetter__'', ''hasOwnProperty'',
      ''__lookupGetter__'', ''__lookupSetter__'', ''isPrototypeOf'',
      ''propertyIsEnumerable'', ''toString'', ''valueOf'', ''__proto__'',
      ''toLocaleString'']"

section \<open>The query compiler (class Builder)\<close>

text \<open>
  \<open>escape\<close> and \<open>escapeId\<close> are imported from \<open>./utils\<close>, which is not among the
  sources: they are fields of the builder, next to the table registry
  \<open>tables\<close> (table alias to the declared field names, in declaration order).
\<close>

record builder =
  escape :: "jsval \<Rightarrow> string"
  escapeId :: "string \<Rightarrow> string"
  tables :: "(string \<times> string list) list"

definition createNullQuery :: "string \<Rightarrow> jsval \<Rightarrow> string" where
  "createNullQuery key v = key @ '' is '' @ (if truthy v then ''not '' else []) @ '' null''"

text \<open>
  \<open>createMemberQuery\<close> reads \<open>value.length\<close> and then calls \<open>value.map\<close>: on
  \<open>null\<close> and \<open>undefined\<close> the read raises, on a value with a truthy length that is
  not an array the call does.
\<close>

definition memberEmpty :: "string \<Rightarrow> string" where
  "memberEmpty notStr = (if notStr \<noteq> [] then ''1'' else ''0'')"

fun createMemberQuery :: "builder \<Rightarrow> string \<Rightarrow> jsval \<Rightarrow> string \<Rightarrow> error + string" where
  "createMemberQuery b key (JArr xs) notStr =
     (if xs = [] then Inr (memberEmpty notStr)
      else Inr (key @ notStr @ '' in ('' @ join '', '' (map (escape b) xs) @ '')''))"
| "createMemberQuery b key JNull notStr = Inl TypeError"
| "createMemberQuery b key JUndefined notStr = Inl TypeError"
| "createMemberQuery b key (JStr s) notStr =
     (if s = [] then Inr (memberEmpty notStr) else Inl TypeError)"
| "createMemberQuery b key (JObj props) notStr =
     (case map_of props ''length'' of
        None \<Rightarrow> Inr (memberEmpty notStr)
      | Some l \<Rightarrow> if truthy l then Inl TypeError else Inr (memberEmpty notStr))"
| "createMemberQuery b key _ notStr = Inr (memberEmpty notStr)"

text \<open>\<open>value.source\<close> as \<open>createRegExpQuery\<close> reads it.\<close>

fun sourceOf :: "jsval \<Rightarrow> error + jsval" where
  "sourceOf (JRegExp s) = Inr (JStr s)"
| "sourceOf JNull = Inl TypeError"
| "sourceOf JUndefined = Inl TypeError"
| "sourceOf (JObj props) =
     (case map_of props ''source'' of None \<Rightarrow> Inr JUndefined | Some v \<Rightarrow> Inr v)"
| "sourceOf _ = Inr JUndefined"

definition createRegExpQuery :: "builder \<Rightarrow> string \<Rightarrow> jsval \<Rightarrow> error + string" where
  "createRegExpQuery b key v =
     (case sourceOf v of
        Inl e \<Rightarrow> Inl e
      | Inr src \<Rightarrow> Inr (key @ '' regexp '' @ escape b src))"

definition createElementQuery :: "builder \<Rightarrow> string \<Rightarrow> jsval \<Rightarrow> string" where
  "createElementQuery b key v = ''find_in_set('' @ escape b v @ '', '' @ key @ '')''"

definition comparator :: "builder \<Rightarrow> string \<Rightarrow> string \<Rightarrow> jsval \<Rightarrow> string" where
  "comparator b operator key v = key @ '' '' @ operator @ '' '' @ escape b v"

definition createEqualQuery :: "builder \<Rightarrow> string \<Rightarrow> jsval \<Rightarrow> string" where
  "createEqualQuery b = comparator b ''=''"

definition logicalAnd :: "string list \<Rightarrow> string" where
  "logicalAnd conditions =
     (if conditions = [] then ''1''
      else if ''0'' \<in> set conditions then ''0''
      else join '' AND '' conditions)"

definition logicalOr :: "string list \<Rightarrow> string" where
  "logicalOr conditions =
     (if conditions = [] then ''0''
      else if ''1'' \<in> set conditions then ''1''
      else ''('' @ join '' OR '' conditions @ '')'')"

definition logicalNot :: "string \<Rightarrow> string" where
  "logicalNot condition = ''NOT('' @ condition @ '')''"

subsection \<open>Path accessors\<close>

text \<open>
  The field a path is split at, as \<open>getRecursive\<close> computes it:
  \<open>Object.keys(fields).find\<close> returns the first declared field, in declaration
  order, that the path starts with (followed by a dot); without one, the first segment
  of the path is taken. \<open>longestDeclaredPrefix\<close> is the reading of the
  specification: the longest declared field that the path starts with.
\<close>

definition splitField :: "string list \<Rightarrow> string \<Rightarrow> string" where
  "splitField declared key =
     (case find (\<lambda>k. startsWith key (k @ ''.'')) declared of
        Some k \<Rightarrow> if k \<noteq> [] then k else hd (split_on CHR ''.'' key)
      | None \<Rightarrow> hd (split_on CHR ''.'' key))"


text \<open>
  \<open>getRecursive\<close>: a string is the path in the table \<open>_\<close>; an array is
  \<open>[table, key]\<close>.
\<close>

definition getRecursivePath :: "builder \<Rightarrow> string \<Rightarrow> string \<Rightarrow> string" where
  "getRecursivePath b table key =
     (let fields = (case map_of (tables b) table of None \<Rightarrow> [] | Some fs \<Rightarrow> fs) in
      if key \<in> set fields \<or> CHR ''.'' \<notin> set key then escapeId b key
      else
        let field = splitField fields key;
            rest = split_on CHR ''.'' (drop (length field + 1) key)
        in ''json_unquote(json_extract('' @ escapeId b field @ '', '' @ [CHR 0x27] @ ''$''
             @ concat (map (\<lambda>k. ''.'' @ [CHR 0x22] @ k @ [CHR 0x22]) rest) @ [CHR 0x27] @ ''))'')"

fun getRecursive :: "builder \<Rightarrow> jsval \<Rightarrow> error + string" where
  "getRecursive b (JStr key) = Inr (getRecursivePath b ''_'' key)"
| "getRecursive b (JArr (JStr table # JStr key # _)) = Inr (getRecursivePath b table key)"
| "getRecursive b _ = Inl NotModelled"

subsection \<open>Eval expressions\<close>

definition evalOperatorNames :: "string list" where
  "evalOperatorNames =
     [''$'', ''$if'', ''$ifNull'', ''$add'', ''$multiply'', ''$subtract'', ''$divide'',
      ''$concat'', ''$or'', ''$and'', ''$not'', ''$eq'', ''$ne'', ''$gt'', ''$gte'',
      ''$lt'', ''$lte'', ''$sum'', ''$avg'', ''$min'', ''$max'', ''$count'']"

text \<open>The SQL operator of the operators built by \<open>this.binary\<close>.\<close>

definition binaryOperator :: "string \<Rightarrow> string" where
  "binaryOperator key =
     (if key = ''$subtract'' then ''-'' else if key = ''$divide'' then ''/''
      else if key = ''$eq'' then ''='' else if key = ''$ne'' then ''!=''
      else if key = ''$gt'' then ''>'' else if key = ''$gte'' then ''>=''
      else if key = ''$lt'' then ''<'' else ''<='')"

text \<open>The aggregations: the text before and after \<open>parseAggr(expr)\<close>.\<close>

definition aggrFormat :: "string \<Rightarrow> string \<Rightarrow> string" where
  "aggrFormat key s =
     (if key = ''$sum'' then ''ifnull(sum('' @ s @ ''), 0)''
      else if key = ''$avg'' then ''avg('' @ s @ '')''
      else if key = ''$min'' then ''min('' @ s @ '')''
      else if key = ''$max'' then ''max('' @ s @ '')''
      else ''count(distinct '' @ s @ '')'')"

text \<open>
  \<open>parseEvalExpr\<close> returns at the first key that is an operator; an object with
  no operator key is escaped as a value. \<open>parseEvalArgs\<close> is
  \<open>args.map(arg => this.parseEval(arg))\<close> on the elements of an array (on a value
  that is not an array, \<open>args.map\<close> raises). The operators built by
  \<open>this.binary\<close> destructure \<open>[left, right]\<close>: a missing element is
  \<open>undefined\<close>, a value that is not iterable raises (a string, which JavaScript
  destructures into its characters, is not modelled).
\<close>

function parseEval :: "builder \<Rightarrow> jsval \<Rightarrow> error + string"
  and parseEvalExpr :: "builder \<Rightarrow> jsval \<Rightarrow> error + string"
  and parseEvalKeys :: "builder \<Rightarrow> jsval \<Rightarrow> (string \<times> jsval) list \<Rightarrow> error + string"
  and evalOperator :: "builder \<Rightarrow> string \<Rightarrow> jsval \<Rightarrow> error + string"
  and parseEvalArgs :: "builder \<Rightarrow> jsval list \<Rightarrow> error + string list"
  and parseAggr :: "builder \<Rightarrow> jsval \<Rightarrow> error + string"
where
  "parseEval b expr =
     (case expr of
        JStr _ \<Rightarrow> Inr (escape b expr)
      | JNum _ \<Rightarrow> Inr (escape b expr)
      | JBool _ \<Rightarrow> Inr (escape b expr)
      | JDate _ \<Rightarrow> Inr (escape b expr)
      | _ \<Rightarrow> parseEvalExpr b expr)"

| "parseEvalExpr b expr =
     (case expr of
        JObj props \<Rightarrow> parseEvalKeys b expr props
      | _ \<Rightarrow> Inr (escape b expr))"

| "parseEvalKeys b expr [] = Inr (escape b expr)"
| "parseEvalKeys b expr ((key, arg) # rest) =
     (if key \<in> set evalOperatorNames then evalOperator b key arg
      else if key \<in> set objectProtoProps then Inl NotModelled
      else parseEvalKeys b expr rest)"

| "evalOperator b key arg =
     (if key = ''$'' then getRecursive b arg
      else if key \<in> set [''$if'', ''$ifNull'', ''$add'', ''$multiply'', ''$concat'', ''$or'', ''$and''] then
        (case arg of
           JArr args \<Rightarrow>
             (case parseEvalArgs b args of
                Inl e \<Rightarrow> Inl e
              | Inr ss \<Rightarrow>
                  Inr (if key = ''$if'' then ''IF('' @ join '', '' ss @ '')''
                       else if key = ''$ifNull'' then ''IFNULL('' @ join '', '' ss @ '')''
                       else if key = ''$add'' then ''('' @ join '' + '' ss @ '')''
                       else if key = ''$multiply'' then ''('' @ join '' * '' ss @ '')''
                       else if key = ''$concat'' then ''concat('' @ join '', '' ss @ '')''
                       else if key = ''$or'' then logicalOr ss
                       else logicalAnd ss))
         | _ \<Rightarrow> Inl TypeError)
      else if key = ''$not'' then
        (case parseEval b arg of Inl e \<Rightarrow> Inl e | Inr s \<Rightarrow> Inr (logicalNot s))
      else if key \<in> set [''$sum'', ''$avg'', ''$min'', ''$max'', ''$count''] then
        (case parseAggr b arg of Inl e \<Rightarrow> Inl e | Inr s \<Rightarrow> Inr (aggrFormat key s))
      else
        (case arg of
           JArr args \<Rightarrow>
             (case parseEval b (case args of [] \<Rightarrow> JUndefined | left # _ \<Rightarrow> left) of
                Inl e \<Rightarrow> Inl e
              | Inr l \<Rightarrow>
                  (case parseEval b (case args of left # right # _ \<Rightarrow> right | _ \<Rightarrow> JUndefined) of
                     Inl e \<Rightarrow> Inl e
                   | Inr r \<Rightarrow> Inr (''('' @ l @ '' '' @ binaryOperator key @ '' '' @ r @ '')'')))
         | JStr _ \<Rightarrow> Inl NotModelled
         | _ \<Rightarrow> Inl TypeError))"

| "parseEvalArgs b [] = Inr []"
| "parseEvalArgs b (x # xs) =
     (case parseEval b x of
        Inl e \<Rightarrow> Inl e
      | Inr s \<Rightarrow> (case parseEvalArgs b xs of Inl e \<Rightarrow> Inl e | Inr ss \<Rightarrow> Inr (s # ss)))"

| "parseAggr b expr =
     (case expr of
        JStr _ \<Rightarrow> getRecursive b expr
      | _ \<Rightarrow> parseEvalExpr b expr)"
  by pat_completeness auto
termination
  by (relation "measure (\<lambda>x. case x of
          Inl (Inl (b, e)) \<Rightarrow> 3 * size e + 2
        | Inl (Inr (Inl (b, e))) \<Rightarrow> 3 * size e + 1
        | Inl (Inr (Inr (b, e, props))) \<Rightarrow> 3 * size_list (size_prod (\<lambda>_. 0) size) props
        | Inr (Inl (b, key, arg)) \<Rightarrow> 3 * size arg + 3
        | Inr (Inr (Inl (b, args))) \<Rightarrow> 3 * size_list size args
        | Inr (Inr (Inr (b, e))) \<Rightarrow> 3 * size e + 2)")
     (auto split: list.splits)

subsection \<open>Field queries\<close>

definition queryOperatorNames :: "string list" where
  "queryOperatorNames =
     [''$or'', ''$and'', ''$not'', ''$exists'', ''$eq'', ''$ne'', ''$gt'', ''$gte'',
      ''$lt'', ''$lte'', ''$in'', ''$nin'', ''$regex'', ''$regexFor'', ''$bitsAllSet'',
      ''$bitsAllClear'', ''$bitsAnySet'', ''$bitsAnyClear'', ''$el'', ''$size'']"

text \<open>The operators that compile without a recursive call.\<close>

definition leafOperator :: "builder \<Rightarrow> string \<Rightarrow> string \<Rightarrow> jsval \<Rightarrow> error + string" where
  "leafOperator b prop key v =
     (if prop = ''$exists'' then Inr (createNullQuery key v)
      else if prop = ''$eq'' then Inr (createEqualQuery b key v)
      else if prop = ''$ne'' then Inr (comparator b ''!='' key v)
      else if prop = ''$gt'' then Inr (comparator b ''>'' key v)
      else if prop = ''$gte'' then Inr (comparator b ''>='' key v)
      else if prop = ''$lt'' then Inr (comparator b ''<'' key v)
      else if prop = ''$lte'' then Inr (comparator b ''<='' key v)
      else if prop = ''$in'' then createMemberQuery b key v []
      else if prop = ''$nin'' then createMemberQuery b key v '' NOT''
      else if prop = ''$regex'' then createRegExpQuery b key v
      else if prop = ''$regexFor'' then Inr (escape b v @ '' REGEXP '' @ key)
      else if prop = ''$bitsAllSet'' then Inr (key @ '' & '' @ escape b v @ '' = '' @ escape b v)
      else if prop = ''$bitsAllClear'' then Inr (key @ '' & '' @ escape b v @ '' = 0'')
      else if prop = ''$bitsAnySet'' then Inr (key @ '' & '' @ escape b v @ '' != 0'')
      else if prop = ''$bitsAnyClear'' then Inr (key @ '' & '' @ escape b v @ '' != '' @ escape b v)
      else if prop = ''$el'' then
        (case v of
           JArr vs \<Rightarrow> Inr (logicalOr (map (createElementQuery b key) vs))
         | JNum _ \<Rightarrow> Inr (createElementQuery b key v)
         | JStr _ \<Rightarrow> Inr (createElementQuery b key v)
         | _ \<Rightarrow> Inl TypeError)
      else
        (if \<not> truthy v then Inr (logicalNot key)
         else Inr (key @ '' AND LENGTH('' @ key @ '') - LENGTH(REPLACE('' @ key @ '', ''
                    @ escape b (JStr '','') @ '', '' @ escape b (JStr []) @ '')) = ''
                    @ escape b v @ '' - 1'')))"

text \<open>
  \<open>parseFieldQuery\<close>: the shorthands first, then the loop over the properties of a
  query expression (\<open>fieldConditions\<close>), which skips every property that is not in
  \<open>queryOperators\<close>. A boolean has no enumerable property.
\<close>

function parseFieldQuery :: "builder \<Rightarrow> string \<Rightarrow> jsval \<Rightarrow> error + string"
  and fieldConditions :: "builder \<Rightarrow> string \<Rightarrow> (string \<times> jsval) list \<Rightarrow> error + string list"
  and queryOperator :: "builder \<Rightarrow> string \<Rightarrow> string \<Rightarrow> jsval \<Rightarrow> error + string"
  and parseFieldQueries :: "builder \<Rightarrow> string \<Rightarrow> jsval list \<Rightarrow> error + string list"
where
  "parseFieldQuery b key query =
     (case (case query of
              JArr _ \<Rightarrow>
                (case createMemberQuery b key query [] of Inl e \<Rightarrow> Inl e | Inr c \<Rightarrow> Inr [c])
            | JRegExp _ \<Rightarrow>
                (case createRegExpQuery b key query of Inl e \<Rightarrow> Inl e | Inr c \<Rightarrow> Inr [c])
            | JStr _ \<Rightarrow> Inr [createEqualQuery b key query]
            | JNum _ \<Rightarrow> Inr [createEqualQuery b key query]
            | JDate _ \<Rightarrow> Inr [createEqualQuery b key query]
            | JNull \<Rightarrow> Inr [createNullQuery key (JBool False)]
            | JUndefined \<Rightarrow> Inr [createNullQuery key (JBool False)]
            | JBool _ \<Rightarrow> Inr []
            | JObj props \<Rightarrow> fieldConditions b key props) of
        Inl e \<Rightarrow> Inl e
      | Inr conditions \<Rightarrow> Inr (logicalAnd conditions))"

| "fieldConditions b key [] = Inr []"
| "fieldConditions b key ((prop, v) # rest) =
     (if prop \<in> set queryOperatorNames then
        (case queryOperator b prop key v of
           Inl e \<Rightarrow> Inl e
         | Inr c \<Rightarrow>
             (case fieldConditions b key rest of Inl e \<Rightarrow> Inl e | Inr cs \<Rightarrow> Inr (c # cs)))
      else if prop \<in> set objectProtoProps then Inl NotModelled
      else fieldConditions b key rest)"

| "queryOperator b prop key v =
     (if prop = ''$or'' then
        (case v of
           JArr vs \<Rightarrow>
             (case parseFieldQueries b key vs of Inl e \<Rightarrow> Inl e | Inr cs \<Rightarrow> Inr (logicalOr cs))
         | _ \<Rightarrow> Inl TypeError)
      else if prop = ''$and'' then
        (case v of
           JArr vs \<Rightarrow>
             (case parseFieldQueries b key vs of Inl e \<Rightarrow> Inl e | Inr cs \<Rightarrow> Inr (logicalAnd cs))
         | _ \<Rightarrow> Inl TypeError)
      else if prop = ''$not'' then
        (case parseFieldQuery b key v of Inl e \<Rightarrow> Inl e | Inr c \<Rightarrow> Inr (logicalNot c))
      else leafOperator b prop key v)"

| "parseFieldQueries b key [] = Inr []"
| "parseFieldQueries b key (v # vs) =
     (case parseFieldQuery b key v of
        Inl e \<Rightarrow> Inl e
      | Inr c \<Rightarrow>
          (case parseFieldQueries b key vs of Inl e \<Rightarrow> Inl e | Inr cs \<Rightarrow> Inr (c # cs)))"
  by pat_completeness auto
termination
  by (relation "measure (\<lambda>x. case x of
          Inl (Inl (b, key, q)) \<Rightarrow> 3 * size q + 2
        | Inl (Inr (b, key, props)) \<Rightarrow> 3 * size_list (size_prod (\<lambda>_. 0) size) props
        | Inr (Inl (b, prop, key, v)) \<Rightarrow> 3 * size v + 3
        | Inr (Inr (b, key, vs)) \<Rightarrow> 3 * size_list size vs)")
     auto

subsection \<open>Queries\<close>

text \<open>
  \<open>parseQuery\<close> loops over the keys of the query (\<open>queryConditions\<close>). A query is
  an object; a value with no enumerable property gives no condition, and the
  index keys of a string or an array are not modelled.
\<close>

function parseQuery :: "builder \<Rightarrow> jsval \<Rightarrow> error + string"
  and queryConditions :: "builder \<Rightarrow> (string \<times> jsval) list \<Rightarrow> error + string list"
  and parseQueries :: "builder \<Rightarrow> jsval list \<Rightarrow> error + string list"
where
  "parseQuery b query =
     (case (case query of
              JObj props \<Rightarrow> queryConditions b props
            | JStr _ \<Rightarrow> Inl NotModelled
            | JArr _ \<Rightarrow> Inl NotModelled
            | _ \<Rightarrow> Inr []) of
        Inl e \<Rightarrow> Inl e
      | Inr conditions \<Rightarrow> Inr (logicalAnd conditions))"

| "queryConditions b [] = Inr []"
| "queryConditions b ((key, v) # rest) =
     (case (if key = ''$not'' then
              (case parseQuery b v of Inl e \<Rightarrow> Inl e | Inr c \<Rightarrow> Inr (logicalNot c))
            else if key = ''$and'' then
              (case v of
                 JArr qs \<Rightarrow>
                   (case parseQueries b qs of Inl e \<Rightarrow> Inl e | Inr cs \<Rightarrow> Inr (logicalAnd cs))
               | _ \<Rightarrow> Inl TypeError)
            else if key = ''$or'' then
              (case v of
                 JArr qs \<Rightarrow>
                   (case parseQueries b qs of Inl e \<Rightarrow> Inl e | Inr cs \<Rightarrow> Inr (logicalOr cs))
               | _ \<Rightarrow> Inl TypeError)
            else if key = ''$expr'' then parseEval b v
            else parseFieldQuery b (escapeId b key) v) of
        Inl e \<Rightarrow> Inl e
      | Inr c \<Rightarrow>
          (case queryConditions b rest of Inl e \<Rightarrow> Inl e | Inr cs \<Rightarrow> Inr (c # cs)))"

| "parseQueries b [] = Inr []"
| "parseQueries b (q # qs) =
     (case parseQuery b q of
        Inl e \<Rightarrow> Inl e
      | Inr c \<Rightarrow> (case parseQueries b qs of Inl e \<Rightarrow> Inl e | Inr cs \<Rightarrow> Inr (c # cs)))"
  by pat_completeness auto
termination
  by (relation "measure (\<lambda>x. case x of
          Inl (b, q) \<Rightarrow> 3 * size q + 2
        | Inr (Inl (b, props)) \<Rightarrow> 3 * size_list (size_prod (\<lambda>_. 0) size) props
        | Inr (Inr (b, qs)) \<Rightarrow> 3 * size_list size qs)")
     auto

section \<open>Escaping primitives\<close>

text \<open>Decimal digits of a natural number and of an integer (number to string).\<close>

fun show_nat :: "nat \<Rightarrow> string" where
  "show_nat n =
     (if n < 10 then [char_of (48 + n)]
      else show_nat (n div 10) @ [char_of (48 + n mod 10)])"

definition show_int :: "int \<Rightarrow> string" where
  "show_int i = (if i < 0 then ''-'' @ show_nat (nat (- i)) else show_nat (nat i))"

text \<open>
  Modelled from the spec: \<open>escape\<close> of \<open>./utils\<close>, which is not among the sources.
  Section 4.1: booleans become 0/1, dates epoch milliseconds (the SQLite dialect), null
  becomes \<open>NULL\<close>, strings are wrapped in quotes (a quote inside is doubled, the
  SQLite escape map), numbers are emitted verbatim. The spec gives no rule for regular
  expressions, arrays and objects: they are rendered as their source or as \<open>NULL\<close>
  here, and nothing below depends on it.
\<close>

fun escape_value :: "jsval \<Rightarrow> string" where
  "escape_value (JBool x) = (if x then ''1'' else ''0'')"
| "escape_value (JDate d) = show_int d"
| "escape_value JNull = ''NULL''"
| "escape_value JUndefined = ''NULL''"
| "escape_value (JStr s) =
     [CHR 0x27] @ concat (map (\<lambda>c. if c = CHR 0x27 then [c, c] else [c]) s) @ [CHR 0x27]"
| "escape_value (JNum n) = show_int n"
| "escape_value (JRegExp s) = s"
| "escape_value (JArr _) = ''NULL''"
| "escape_value (JObj _) = ''NULL''"

text \<open>
  Modelled from the spec: \<open>escapeId\<close> of \<open>./utils\<close>, which is not among the
  sources. Section 4.1: backtick-wrapping, each part of a qualified name quoted.
\<close>

definition escape_id :: "string \<Rightarrow> string" where
  "escape_id name = join ''.'' (map (\<lambda>p. ''`'' @ p @ ''`'') (split_on CHR ''.'' name))"

definition specBuilder :: "(string \<times> string list) list \<Rightarrow> builder" where
  "specBuilder ts = \<lparr>escape = escape_value, escapeId = escape_id, tables = ts\<rparr>"

section \<open>The SQLite driver: statements and snapshots\<close>

text \<open>
  The driver owns an embedded database \<open>db\<close> (sql.js, an external engine), the
  configured \<open>path\<close> and the timer \<open>writeTask\<close> of the pending snapshot
  (\<open>True\<close>: a write of the file is scheduled). \<open>issued\<close> lists the statements
  handed to \<open>#run\<close>, oldest first (they are what the logger prints). The engine is a
  parameter: \<open>exec sql db\<close> is the database after the statement, or the error the
  engine raises.
\<close>

datatype 'a outcome = Returned 'a | Raised error

record 'db sqlite_driver =
  config_path :: string
  db :: 'db
  writeTask :: bool
  issued :: "string list"

type_synonym 'db engine = "string \<Rightarrow> 'db \<Rightarrow> error + 'db"

text \<open>
  \<open>#run\<close>: the statement is executed; when the engine raises, the error propagates
  before the timer is touched. Otherwise a truthy \<open>config.path\<close> clears the pending
  timer and sets a new one.
\<close>

definition run :: "'db engine \<Rightarrow> string \<Rightarrow> 'db sqlite_driver \<Rightarrow> unit outcome \<times> 'db sqlite_driver" where
  "run exec sql d =
     (case exec sql (db d) of
        Inl e \<Rightarrow> (Raised e, d\<lparr>issued := issued d @ [sql]\<rparr>)
      | Inr db' \<Rightarrow>
          (Returned (),
           d\<lparr>db := db', issued := issued d @ [sql],
             writeTask := (if config_path d \<noteq> [] then True else writeTask d)\<rparr>))"

text \<open>
  \<open>load\<close>, called by \<open>start\<close>: the buffer the database is initialised from, and the
  files read. A failed read gives \<open>null\<close>.
\<close>

definition load :: "(string \<Rightarrow> 'buf option) \<Rightarrow> string \<Rightarrow> 'buf option \<times> string list" where
  "load readFile path =
     (if path = '':memory:'' then (None, []) else (readFile path, [path]))"

record selection =
  sel_table :: string
  sel_query :: jsval

text \<open>
  \<open>remove\<close>: \<open>this.sql\<close> is the builder. An error of the compiler leaves the
  driver as it was. (The driver's builder is the subclass \<open>SQLiteBuilder\<close>; it
  inherits \<open>parseQuery\<close>, \<open>parseFieldQuery\<close>, \<open>createMemberQuery\<close> and the
  logical reduction, and overrides only the text compiled for \<open>$el\<close>, \<open>$if\<close>,
  \<open>$concat\<close> and \<open>$length\<close>, which the model takes from the base class.)
\<close>

definition remove :: "builder \<Rightarrow> 'db engine \<Rightarrow> selection \<Rightarrow> 'db sqlite_driver
    \<Rightarrow> unit outcome \<times> 'db sqlite_driver" where
  "remove b exec sel d =
     (case parseQuery b (sel_query sel) of
        Inl e \<Rightarrow> (Raised e, d)
      | Inr filter' \<Rightarrow>
          if filter' = ''0'' then (Returned (), d)
          else run exec (''DELETE FROM '' @ escapeId b (sel_table sel) @ '' WHERE '' @ filter') d)"

text \<open>
  An engine for the examples below: it accepts every statement and counts them.
\<close>

definition counting_engine :: "nat engine" where
  "counting_engine sql n = Inr (Suc n)"

definition idle_driver :: "string \<Rightarrow> nat sqlite_driver" where
  "idle_driver path = \<lparr>config_path = path, db = 0, writeTask = False, issued = []\<rparr>"

section \<open>Upsert: the fields to update\<close>

text \<open>
  \<open>[...new Set(xs)]\<close>: the distinct elements in the order of their first occurrence.
\<close>

definition uniq :: "'a list \<Rightarrow> 'a list" where
  "uniq xs = rev (remdups (rev xs))"

text \<open>
  \<open>Object.keys(Object.assign({}, ...data))\<close>: the keys of all items, each at its first
  occurrence. An item is the list of its properties.
\<close>

definition mergedKeys :: "(string \<times> jsval) list list \<Rightarrow> string list" where
  "mergedKeys data = uniq (concat (map (map fst) data))"

text \<open>
  The declared field a key belongs to (\<open>find\<close> gives \<open>undefined\<close>, here \<open>None\<close>,
  when no field matches), and \<open>dataFields\<close> as both drivers compute it.
\<close>

definition rootField :: "string list \<Rightarrow> string \<Rightarrow> string option" where
  "rootField fieldNames key =
     find (\<lambda>field. field = key \<or> startsWith key (field @ ''.'')) fieldNames"

definition dataFields :: "string list \<Rightarrow> (string \<times> jsval) list list \<Rightarrow> string option list" where
  "dataFields fieldNames data = uniq (map (rootField fieldNames) (mergedKeys data))"

text \<open>
  \<open>difference\<close> of cosmokit (an external library): the elements of the first array
  that the second does not include.
\<close>

definition difference :: "string option list \<Rightarrow> string list \<Rightarrow> string option list" where
  "difference xs ys = filter (\<lambda>x. case x of None \<Rightarrow> True | Some f \<Rightarrow> f \<notin> set ys) xs"

text \<open>
  \<open>SQLiteDriver.upsert\<close>: when the difference is empty, \<open>dataFields[0]\<close> is updated
  (\<open>undefined\<close> when there is no data field).
\<close>

definition sqlite_updateFields ::
  "string list \<Rightarrow> (string \<times> jsval) list list \<Rightarrow> string list \<Rightarrow> string option list" where
  "sqlite_updateFields fieldNames data keys =
     (let updateFields = difference (dataFields fieldNames data) keys in
      if updateFields = []
      then [case dataFields fieldNames data of [] \<Rightarrow> None | f # _ \<Rightarrow> f]
      else updateFields)"

text \<open>
  \<open>MySQLDriver.upsert\<close>: the difference as it is. \<open>mysql_update\<close> is the text after
  \<open>ON DUPLICATE KEY UPDATE\<close>: one assignment per update field, where \<open>expr\<close> stands
  for the value expression the driver builds for a field.
\<close>

definition mysql_updateFields ::
  "string list \<Rightarrow> (string \<times> jsval) list list \<Rightarrow> string list \<Rightarrow> string option list" where
  "mysql_updateFields fieldNames data keys = difference (dataFields fieldNames data) keys"

definition backtick :: "string \<Rightarrow> string" where
  "backtick str = ''`'' @ str @ ''`''"

definition mysql_update ::
  "(string option \<Rightarrow> string) \<Rightarrow> string list \<Rightarrow> (string \<times> jsval) list list \<Rightarrow> string list \<Rightarrow> string" where
  "mysql_update expr fieldNames data keys =
     join '', ''
       (map (\<lambda>field. backtick (case field of None \<Rightarrow> ''undefined'' | Some f \<Rightarrow> f)
                      @ '' = '' @ expr field)
          (mysql_updateFields fieldNames data keys))"

section \<open>Cast plugins of the SQLite builder\<close>

text \<open>
  The plugins registered by \<open>SQLiteBuilder\<close>, on the types they are declared for:
  \<open>boolean\<close> (\<open>+value\<close> and \<open>!!value\<close>), \<open>list\<close> (a string array, joined with a
  comma; the dump passes a value that is not an array through), \<open>json\<close>
  (\<open>JSON.stringify\<close> and \<open>JSON.parse\<close> are parameters) and
  \<open>date\<close>, \<open>time\<close>, \<open>timestamp\<close> (a \<open>Date\<close> and its epoch milliseconds).
\<close>

definition dump_boolean :: "bool \<Rightarrow> int" where
  "dump_boolean v = (if v then 1 else 0)"

definition load_boolean :: "int \<Rightarrow> bool" where
  "load_boolean v = (v \<noteq> 0)"

definition dump_list :: "string list \<Rightarrow> string" where
  "dump_list v = join '','' v"

definition load_list :: "string \<Rightarrow> string list" where
  "load_list v = (if v \<noteq> [] then split_on CHR '','' v else [])"

definition dump_json :: "('j \<Rightarrow> string) \<Rightarrow> 'j \<Rightarrow> string" where
  "dump_json stringify v = stringify v"

definition load_json :: "(string \<Rightarrow> 'j) \<Rightarrow> string \<Rightarrow> 'j \<Rightarrow> 'j" where
  "load_json parse v initial = (if v \<noteq> [] then parse v else initial)"

fun dump_date :: "jsval \<Rightarrow> error + jsval" where
  "dump_date JNull = Inr JNull"
| "dump_date (JDate t) = Inr (JNum t)"
| "dump_date (JNum n) = Inr (JNum n)"
| "dump_date _ = Inl NotModelled"

fun load_date :: "jsval \<Rightarrow> error + jsval" where
  "load_date JNull = Inr JNull"
| "load_date (JNum n) = Inr (JDate n)"
| "load_date _ = Inl NotModelled"

section \<open>Models and the schema synchronizer of the SQLite driver\<close>

datatype fieldType =
    TPrimary | TBoolean | TInteger | TUnsigned | TDate | TTime | TTimestamp
  | TFloat | TDouble | TDecimal | TChar | TString | TText | TList | TJson

text \<open>
  A field descriptor: \<open>legacy\<close> is \<open>[]\<close> when not given, \<open>nullable\<close> is \<open>True\<close>
  when not given. A model lists its fields in the order in which
  \<open>for (const key in model.fields)\<close> visits them (the names are distinct);
  \<open>primary\<close> and the members of \<open>unique\<close> are a name or an array of names.
\<close>

record field =
  ftype :: fieldType
  legacy :: "string list"
  deprecated :: bool
  nullable :: bool
  initial :: jsval
  flength :: "nat option"
  precision :: "nat option"
  scale :: "nat option"

datatype keyspec = OneKey string | Keys "string list"

fun makeArray :: "keyspec \<Rightarrow> string list" where
  "makeArray (OneKey k) = [k]"
| "makeArray (Keys ks) = ks"

record model =
  model_fields :: "(string \<times> field) list"
  primary :: keyspec
  autoInc :: bool
  unique :: "keyspec list"
  foreign :: "(string \<times> string \<times> string) list"

text \<open>A row of \<open>PRAGMA table_info\<close> (\<open>SQLiteFieldInfo\<close>).\<close>

record column =
  cid :: nat
  cname :: string
  ctype :: string
  notnull :: int
  dflt_value :: "string option"
  pk :: bool

fun getTypeDef :: "fieldType \<Rightarrow> string" where
  "getTypeDef TPrimary = ''INTEGER''"
| "getTypeDef TBoolean = ''INTEGER''"
| "getTypeDef TInteger = ''INTEGER''"
| "getTypeDef TUnsigned = ''INTEGER''"
| "getTypeDef TDate = ''INTEGER''"
| "getTypeDef TTime = ''INTEGER''"
| "getTypeDef TTimestamp = ''INTEGER''"
| "getTypeDef TFloat = ''REAL''"
| "getTypeDef TDouble = ''REAL''"
| "getTypeDef TDecimal = ''REAL''"
| "getTypeDef TChar = ''TEXT''"
| "getTypeDef TString = ''TEXT''"
| "getTypeDef TText = ''TEXT''"
| "getTypeDef TList = ''TEXT''"
| "getTypeDef TJson = ''TEXT''"

definition isNullable :: "jsval \<Rightarrow> bool" where
  "isNullable v = (v = JNull \<or> v = JUndefined)"

text \<open>
  What \<open>prepare\<close> works with: the builder \<open>this.sql\<close>; \<open>env_literal key initial\<close>,
  the text of \<open>this.sql.escape(this.sql.dump(model, {[key]: initial})[key])\<close> (the
  builder's \<open>dump\<close> is not among the sources); the engine; and the answer of the
  engine to \<open>PRAGMA table_info\<close>.
\<close>

record 'db prepare_env =
  env_sql :: builder
  env_literal :: "string \<Rightarrow> jsval \<Rightarrow> string"
  env_exec :: "'db engine"
  env_table_info :: "string \<Rightarrow> 'db \<Rightarrow> column list"

text \<open>The definition of the column of a declared field.\<close>

definition columnDef :: "builder \<Rightarrow> (string \<Rightarrow> jsval \<Rightarrow> string) \<Rightarrow> model \<Rightarrow> string \<Rightarrow> field \<Rightarrow> string" where
  "columnDef b lit m key f =
     (let typedef = getTypeDef (ftype f);
          def = escapeId b key @ '' '' @ typedef
      in if primary m = OneKey key \<and> autoInc m
         then def @ '' NOT NULL PRIMARY KEY AUTOINCREMENT''
         else def @ (if nullable f then '' '' else '' NOT '') @ ''NULL''
              @ (if \<not> isNullable (initial f) then '' DEFAULT '' @ lit key (initial f) else []))"

text \<open>
  \<open>mapping\<close> is a plain object \<open>{}\<close>, kept as the list of its own properties in
  the order of their creation. \<open>mapping[name] = key\<close> creates the property or
  overwrites it in place; for the name \<open>__proto__\<close> the assignment reaches the setter
  inherited from \<open>Object.prototype\<close>, which ignores a string, and no property is
  created. \<open>mapped\<close> is the truthiness of \<open>mapping[name]\<close>: a name inherited from
  \<open>Object.prototype\<close> reads as a function or an object.
\<close>

fun assign :: "(string \<times> 'a) list \<Rightarrow> string \<Rightarrow> 'a \<Rightarrow> (string \<times> 'a) list" where
  "assign [] k v = [(k, v)]"
| "assign ((k', v') # rest) k v =
     (if k' = k then (k, v) # rest else (k', v') # assign rest k v)"

definition setProperty :: "(string \<times> 'a) list \<Rightarrow> string \<Rightarrow> 'a \<Rightarrow> (string \<times> 'a) list" where
  "setProperty obj k v = (if k = ''__proto__'' then obj else assign obj k v)"

text \<open>
  \<open>Object.keys\<close> of a plain object: first the keys that are array indices (the
  decimal numeral, without leading zeros, of a number below \<open>2^32 - 1\<close>) in
  ascending numeric order, then the other keys in the order of their creation.
\<close>

definition isDigit :: "char \<Rightarrow> bool" where
  "isDigit c = (48 \<le> (of_char c :: nat) \<and> (of_char c :: nat) \<le> 57)"

definition decimal :: "string \<Rightarrow> nat" where
  "decimal s = foldl (\<lambda>n c. 10 * n + (of_char c - 48)) 0 s"

definition arrayIndex :: "string \<Rightarrow> nat option" where
  "arrayIndex s =
     (if s \<noteq> [] \<and> list_all isDigit s \<and> (s = ''0'' \<or> hd s \<noteq> CHR ''0'')
         \<and> decimal s < 4294967295
      then Some (decimal s) else None)"

definition objectKeys :: "(string \<times> 'a) list \<Rightarrow> string list" where
  "objectKeys obj =
     (let names = map fst obj in
      sort_key decimal (filter (\<lambda>k. arrayIndex k \<noteq> None) names)
      @ filter (\<lambda>k. arrayIndex k = None) names)"

definition mapped :: "(string \<times> string) list \<Rightarrow> string \<Rightarrow> bool" where
  "mapped mp name =
     (case map_of mp name of
        Some key \<Rightarrow> key \<noteq> []
      | None \<Rightarrow> name \<in> set objectProtoProps)"

definition dropIncludes :: "string list option \<Rightarrow> string \<Rightarrow> bool" where
  "dropIncludes dropKeys key = (case dropKeys of None \<Rightarrow> False | Some ks \<Rightarrow> key \<in> set ks)"

text \<open>The variables of \<open>prepare\<close>.\<close>

record plan =
  columnDefs :: "string list"
  alter :: "string list"
  mapping :: "(string \<times> string) list"
  shouldMigrate :: bool

definition emptyPlan :: plan where
  "emptyPlan = \<lparr>columnDefs = [], alter = [], mapping = [], shouldMigrate = False\<rparr>"

text \<open>The live column a declared field is matched to: the first one named by the field or by one of its legacy aliases.\<close>

definition matchColumn :: "column list \<Rightarrow> string \<Rightarrow> field \<Rightarrow> column option" where
  "matchColumn columns key f = find (\<lambda>c. cname c \<in> set (key # legacy f)) columns"

text \<open>The loop over the declared fields.\<close>

fun fieldLoop :: "builder \<Rightarrow> (string \<Rightarrow> jsval \<Rightarrow> string) \<Rightarrow> model \<Rightarrow> column list
    \<Rightarrow> string list option \<Rightarrow> (string \<times> field) list \<Rightarrow> plan \<Rightarrow> plan" where
  "fieldLoop b lit m columns dropKeys [] p = p"
| "fieldLoop b lit m columns dropKeys ((key, f) # rest) p =
     fieldLoop b lit m columns dropKeys rest
       (if deprecated f then
          (if dropIncludes dropKeys key then p\<lparr>shouldMigrate := True\<rparr> else p)
        else
          (let def = columnDef b lit m key f;
               p' = p\<lparr>columnDefs := columnDefs p @ [def]\<rparr>
           in case matchColumn columns key f of
                None \<Rightarrow> p'\<lparr>alter := alter p' @ [''ADD '' @ def]\<rparr>
              | Some column \<Rightarrow>
                  p'\<lparr>mapping := setProperty (mapping p') (cname column) key,
                     shouldMigrate := (shouldMigrate p' \<or> cname column \<noteq> key
                                        \<or> ctype column \<noteq> getTypeDef (ftype f))\<rparr>))"

definition joinKeys :: "string list \<Rightarrow> string" where
  "joinKeys keys = (if keys \<noteq> [] then join '', '' (map (\<lambda>key. ''`'' @ key @ ''`'') keys) else ''*'')"

definition indexDefs :: "builder \<Rightarrow> model \<Rightarrow> string list" where
  "indexDefs b m =
     (if primary m \<noteq> OneKey [] \<and> \<not> autoInc m
      then [''PRIMARY KEY ('' @ joinKeys (makeArray (primary m)) @ '')''] else [])
     @ map (\<lambda>keys. ''UNIQUE ('' @ joinKeys (makeArray keys) @ '')'') (unique m)
     @ map (\<lambda>(key, table, key2).
              ''FOREIGN KEY (`'' @ key @ ''`) REFERENCES '' @ escapeId b table @ '' (`'' @ key2 @ ''`)'')
         (foreign m)"

text \<open>The loop that preserves the live columns no declared field is matched to.\<close>

definition preservedDef :: "builder \<Rightarrow> column \<Rightarrow> string" where
  "preservedDef b c =
     escapeId b (cname c) @ '' '' @ ctype c
     @ (if notnull c \<noteq> 0 then '' NOT '' else '' '') @ ''NULL''
     @ (if pk c then '' PRIMARY KEY'' else [])
     @ (case dflt_value c of None \<Rightarrow> [] | Some v \<Rightarrow> '' DEFAULT '' @ escape b (JStr v))"

fun preserveLoop :: "builder \<Rightarrow> string list option \<Rightarrow> column list \<Rightarrow> plan \<Rightarrow> plan" where
  "preserveLoop b dropKeys [] p = p"
| "preserveLoop b dropKeys (c # cs) p =
     preserveLoop b dropKeys cs
       (if mapped (mapping p) (cname c) \<or> dropIncludes dropKeys (cname c) then p
        else p\<lparr>columnDefs := columnDefs p @ [preservedDef b c],
               mapping := setProperty (mapping p) (cname c) (cname c)\<rparr>)"

text \<open>Statements in sequence: the first error propagates.\<close>

fun runAll :: "'db engine \<Rightarrow> string list \<Rightarrow> 'db sqlite_driver \<Rightarrow> unit outcome \<times> 'db sqlite_driver" where
  "runAll exec [] d = (Returned (), d)"
| "runAll exec (sql # rest) d =
     (case run exec sql d of
        (Raised e, d') \<Rightarrow> (Raised e, d')
      | (Returned _, d') \<Rightarrow> runAll exec rest d')"

text \<open>
  The migration: the temporary table is created, filled from the live columns
  \<open>Object.keys(mapping)\<close> and renamed; when the copy or the drop of the old table
  fails, the temporary table is dropped and the error rethrown.
\<close>

definition migrateStatements :: "builder \<Rightarrow> model \<Rightarrow> string \<Rightarrow> plan \<Rightarrow> string list" where
  "migrateStatements b m table p =
     (let temp = table @ ''_temp'';
          selected = join '', '' (map (escapeId b) (objectKeys (mapping p)))
      in [''CREATE TABLE '' @ escapeId b temp @ '' (''
            @ join '', '' (columnDefs p @ indexDefs b m) @ '')'',
          ''INSERT INTO '' @ escapeId b temp @ '' SELECT '' @ selected @ '' FROM '' @ escapeId b table,
          ''DROP TABLE '' @ escapeId b table,
          ''ALTER TABLE '' @ escapeId b temp @ '' RENAME TO '' @ escapeId b table])"

definition rebuild :: "'db engine \<Rightarrow> builder \<Rightarrow> model \<Rightarrow> string \<Rightarrow> plan \<Rightarrow> 'db sqlite_driver
    \<Rightarrow> unit outcome \<times> 'db sqlite_driver" where
  "rebuild exec b m table p d =
     (let stmts = migrateStatements b m table p in
      case run exec (stmts ! 0) d of
        (Raised e, d1) \<Rightarrow> (Raised e, d1)
      | (Returned _, d1) \<Rightarrow>
          (case runAll exec [stmts ! 1, stmts ! 2] d1 of
             (Raised e, d2) \<Rightarrow>
               (case run exec (''DROP TABLE '' @ escapeId b (table @ ''_temp'')) d2 of
                  (Raised e', d3) \<Rightarrow> (Raised e', d3)
                | (Returned _, d3) \<Rightarrow> (Raised e, d3))
           | (Returned _, d2) \<Rightarrow> run exec (stmts ! 3) d2))"

text \<open>
  The body of \<open>prepare\<close> up to \<open>if (dropKeys) return\<close>, for the live columns
  \<open>columns\<close>.
\<close>

definition prepareSchema :: "'db prepare_env \<Rightarrow> model \<Rightarrow> string \<Rightarrow> column list
    \<Rightarrow> string list option \<Rightarrow> 'db sqlite_driver \<Rightarrow> unit outcome \<times> 'db sqlite_driver" where
  "prepareSchema env m table columns dropKeys d =
     (let b = env_sql env;
          p = fieldLoop b (env_literal env) m columns dropKeys (model_fields m) emptyPlan
      in if columns = [] then
           run (env_exec env)
             (''CREATE TABLE '' @ escapeId b table @ '' (''
                @ join '', '' (columnDefs p @ indexDefs b m) @ '')'') d
         else if shouldMigrate p then
           rebuild (env_exec env) b m table (preserveLoop b dropKeys columns p) d
         else if alter p \<noteq> [] then
           runAll (env_exec env)
             (map (\<lambda>def. ''ALTER TABLE '' @ escapeId b table @ '' '' @ def) (alter p)) d
         else (Returned (), d))"

text \<open>
  Modelled from the spec: \<open>Driver.migrate\<close> of the core package, which is not among
  the sources. Sections 4.5 (step 7) and 9: the registered migration hooks are invoked
  in declaration order; a hook runs when \<open>before(keys)\<close> holds and then contributes
  its keys (\<open>after\<close>); \<open>finalize\<close> follows. A hook is its callback, a change of the
  driver's state, and its keys. The result is the accumulated drop list.
\<close>

fun migrate :: "(('s \<Rightarrow> 's) \<times> string list) list \<Rightarrow> (string list \<Rightarrow> bool) \<Rightarrow> 's \<Rightarrow> string list \<times> 's" where
  "migrate [] beforeHook d = ([], d)"
| "migrate ((callback, keys) # rest) beforeHook d =
     (if beforeHook keys
      then (case migrate rest beforeHook (callback d) of (ks, d') \<Rightarrow> (keys @ ks, d'))
      else migrate rest beforeHook d)"

text \<open>
  \<open>prepare(table)\<close>: the schema is put in shape, then the hooks run with
  \<open>before\<close> testing the keys against the columns read at the start, and \<open>finalize\<close>
  calls \<open>prepare(table, dropKeys)\<close> when the drop list is not empty, which reads the
  columns again.
\<close>

definition before_hook :: "column list \<Rightarrow> string list \<Rightarrow> bool" where
  "before_hook columns keys = list_all (\<lambda>key. list_ex (\<lambda>c. cname c = key) columns) keys"

definition prepare :: "'db prepare_env
    \<Rightarrow> (('db sqlite_driver \<Rightarrow> 'db sqlite_driver) \<times> string list) list
    \<Rightarrow> model \<Rightarrow> string \<Rightarrow> 'db sqlite_driver \<Rightarrow> unit outcome \<times> 'db sqlite_driver" where
  "prepare env migrations m table d =
     (let columns = env_table_info env table (db d) in
      case prepareSchema env m table columns None d of
        (Raised e, d1) \<Rightarrow> (Raised e, d1)
      | (Returned _, d1) \<Rightarrow>
          (case migrate migrations (before_hook columns) d1 of
             (dropKeys, d2) \<Rightarrow>
               if dropKeys = [] then (Returned (), d2)
               else prepareSchema env m table (env_table_info env table (db d2))
                      (Some dropKeys) d2))"

text \<open>
  The live table is synchronized to the model: it has columns, and the live column that
  \<open>prepare\<close> matches to a declared field that is not deprecated bears the name of
  the field and has its type.
\<close>

definition synchronized :: "model \<Rightarrow> column list \<Rightarrow> bool" where
  "synchronized m columns =
     (columns \<noteq> []
      \<and> list_all (\<lambda>(key, f). deprecated f \<or>
            (case matchColumn columns key f of
               None \<Rightarrow> False
             | Some c \<Rightarrow> cname c = key \<and> ctype c = getTypeDef (ftype f)))
          (model_fields m))"

text \<open>
  Examples for the theorems below: a field with defaults, a live column, and an
  environment over the counting engine whose \<open>PRAGMA table_info\<close> answers
  \<open>before\<close> while no statement has run and \<open>after\<close> from then on. The
  engine \<open>rejecting_engine\<close> raises the given error for the listed statements and
  counts the others.
\<close>

definition rejecting_engine :: "string list \<Rightarrow> error \<Rightarrow> nat engine" where
  "rejecting_engine rejected e sql n = (if sql \<in> set rejected then Inl e else Inr (Suc n))"

definition plainField :: "fieldType \<Rightarrow> string list \<Rightarrow> field" where
  "plainField t aliases =
     \<lparr>ftype = t, legacy = aliases, deprecated = False, nullable = True, initial = JUndefined,
      flength = None, precision = None, scale = None\<rparr>"

definition liveColumn :: "string \<Rightarrow> string \<Rightarrow> column" where
  "liveColumn n t = \<lparr>cid = 0, cname = n, ctype = t, notnull = 0, dflt_value = None, pk = False\<rparr>"

definition scripted_env :: "column list \<Rightarrow> column list \<Rightarrow> nat prepare_env" where
  "scripted_env before_columns after_columns =
     \<lparr>env_sql = specBuilder [], env_literal = (\<lambda>key v. escape_value v),
      env_exec = counting_engine,
      env_table_info = (\<lambda>table n. if n = 0 then before_columns else after_columns)\<rparr>"

text \<open>A model in which the legacy alias of the field \<open>a\<close> is the name of the field \<open>b\<close>.\<close>

definition alias_clash_model :: model where
  "alias_clash_model =
     \<lparr>model_fields = [(''b'', plainField TString []), (''a'', plainField TString [''b''])],
      primary = OneKey ''b'', autoInc = False, unique = [], foreign = []\<rparr>"

text \<open>The model of the schema evolution scenario: \<open>text\<close> with the legacy alias \<open>caption\<close>.\<close>

definition caption_model :: model where
  "caption_model =
     \<lparr>model_fields = [(''id'', plainField TUnsigned []), (''text'', plainField TString [''caption''])],
      primary = OneKey ''id'', autoInc = True, unique = [], foreign = []\<rparr>"

section \<open>The schema synchronizer of the MySQL driver\<close>

text \<open>A row of \<open>information_schema.columns\<close> (\<open>ColumnInfo\<close>).\<close>

record columnInfo =
  COLUMN_NAME :: string
  IS_NULLABLE :: string
  DATA_TYPE :: string

definition getIntegerType :: "nat option \<Rightarrow> string" where
  "getIntegerType len =
     (let length = (case len of None \<Rightarrow> 11 | Some n \<Rightarrow> n) in
      if length \<le> 4 then ''tinyint''
      else if length \<le> 6 then ''smallint''
      else if length \<le> 9 then ''mediumint''
      else if length \<le> 11 then ''int''
      else ''bigint'')"

text \<open>
  \<open>${length || 255}\<close>: the default stands for \<open>undefined\<close> and for zero. A
  template prints an absent \<open>precision\<close> or \<open>scale\<close> as \<open>undefined\<close>.
\<close>

definition lengthOr :: "nat option \<Rightarrow> nat \<Rightarrow> string" where
  "lengthOr len dflt = show_nat (case len of None \<Rightarrow> dflt | Some n \<Rightarrow> if n = 0 then dflt else n)"

definition showOptional :: "nat option \<Rightarrow> string" where
  "showOptional n = (case n of None \<Rightarrow> ''undefined'' | Some k \<Rightarrow> show_nat k)"

text \<open>
  \<open>getTypeDefinition\<close>: the switch has no case for \<open>primary\<close> and
  \<open>boolean\<close>, for which the function returns \<open>undefined\<close> (here \<open>None\<close>).
\<close>

definition getTypeDefinition :: "field \<Rightarrow> string option" where
  "getTypeDefinition f =
     (case ftype f of
        TFloat \<Rightarrow> Some ''float''
      | TDouble \<Rightarrow> Some ''double''
      | TDate \<Rightarrow> Some ''date''
      | TTime \<Rightarrow> Some ''time''
      | TTimestamp \<Rightarrow> Some ''datetime''
      | TInteger \<Rightarrow> Some (getIntegerType (flength f))
      | TUnsigned \<Rightarrow> Some (getIntegerType (flength f) @ '' unsigned'')
      | TDecimal \<Rightarrow>
          Some (''decimal('' @ showOptional (precision f) @ '', '' @ showOptional (scale f)
                @ '') unsigned'')
      | TChar \<Rightarrow> Some (''char('' @ lengthOr (flength f) 255 @ '')'')
      | TString \<Rightarrow> Some (''varchar('' @ lengthOr (flength f) 255 @ '')'')
      | TText \<Rightarrow> Some (''text('' @ lengthOr (flength f) 65535 @ '')'')
      | TList \<Rightarrow> Some (''text('' @ lengthOr (flength f) 65535 @ '')'')
      | TJson \<Rightarrow> Some (''text('' @ lengthOr (flength f) 65535 @ '')'')
      | TPrimary \<Rightarrow> None
      | TBoolean \<Rightarrow> None)"

definition createIndex :: "keyspec \<Rightarrow> string" where
  "createIndex keys = join '', '' (map backtick (makeArray keys))"

text \<open>
  What the MySQL \<open>prepare\<close> works with: \<open>my_literal initial table key\<close>, the text of
  \<open>this.sql.escape(initial, name, key)\<close>; \<open>escapeId\<close> and \<open>format\<close> of the mysql
  package; the server, as an engine; and its answer to the query on
  \<open>information_schema.columns\<close>.
\<close>

record 'db mysql_env =
  my_literal :: "jsval \<Rightarrow> string \<Rightarrow> string \<Rightarrow> string"
  my_escapeId :: "string \<Rightarrow> string"
  my_format :: "string \<Rightarrow> string list \<Rightarrow> string"
  my_exec :: "'db engine"
  my_columns :: "string \<Rightarrow> 'db \<Rightarrow> columnInfo list"
  my_charset :: string

text \<open>
  The definition of one column in \<open>_getColDefs\<close>. \<open>typedef.startsWith\<close> raises
  when the type has no definition and \<open>initial\<close> is truthy.
\<close>

definition mysqlColumnDef :: "'db mysql_env \<Rightarrow> model \<Rightarrow> string \<Rightarrow> string \<Rightarrow> field \<Rightarrow> error + string" where
  "mysqlColumnDef env m name key f =
     (if primary m = OneKey key \<and> autoInc m
      then Inr (backtick key @ '' int unsigned not null auto_increment'')
      else
        let typedef = getTypeDefinition f;
            def = backtick key @ '' '' @ (case typedef of None \<Rightarrow> ''undefined'' | Some t \<Rightarrow> t)
                  @ (if key \<in> set (makeArray (primary m)) then '' not null''
                     else (if nullable f then '' '' else '' not '') @ ''null'')
        in if truthy (initial f) then
             (case typedef of
                None \<Rightarrow> Inl TypeError
              | Some t \<Rightarrow>
                  Inr (if \<not> startsWith t ''text''
                       then def @ '' default '' @ my_literal env (initial f) name key
                       else def))
           else Inr def)"

text \<open>
  The loop of \<open>_getColDefs\<close> over the declared fields: a field is looked up among the
  live columns by its name; \<open>shouldUpdate\<close> is never set, so \<open>update\<close> stays empty.
\<close>

fun colDefLoop :: "'db mysql_env \<Rightarrow> model \<Rightarrow> string \<Rightarrow> columnInfo list \<Rightarrow> (string \<times> field) list
    \<Rightarrow> error + string list" where
  "colDefLoop env m name columns [] = Inr []"
| "colDefLoop env m name columns ((key, f) # rest) =
     (case mysqlColumnDef env m name key f of
        Inl e \<Rightarrow> Inl e
      | Inr def \<Rightarrow>
          (case colDefLoop env m name columns rest of
             Inl e \<Rightarrow> Inl e
           | Inr create \<Rightarrow>
               if find (\<lambda>info. COLUMN_NAME info = key) columns = None
               then Inr (def # create) else Inr create))"

definition getColDefs :: "'db mysql_env \<Rightarrow> model \<Rightarrow> string \<Rightarrow> columnInfo list
    \<Rightarrow> error + (string list \<times> string list)" where
  "getColDefs env m name columns =
     (case colDefLoop env m name columns (model_fields m) of
        Inl e \<Rightarrow> Inl e
      | Inr create \<Rightarrow>
          Inr (if columns = [] then
                 create @ [''primary key ('' @ createIndex (primary m) @ '')'']
                 @ map (\<lambda>key. ''unique index ('' @ createIndex key @ '')'') (unique m)
                 @ map (\<lambda>(key, table, key2).
                          ''foreign key ('' @ backtick key @ '') references ''
                          @ my_escapeId env table @ '' ('' @ backtick key2 @ '')'')
                     (foreign m)
               else create, []))"

text \<open>
  The driver: the database of the server and the statements handed to \<open>queue\<close> after
  the query on the live columns. \<open>queue\<close> formats the statement and sends it.
\<close>

record 'db mysql_driver =
  my_db :: 'db
  queued :: "string list"

definition queue :: "'db mysql_env \<Rightarrow> string \<Rightarrow> string list \<Rightarrow> 'db mysql_driver
    \<Rightarrow> unit outcome \<times> 'db mysql_driver" where
  "queue env sql vals d =
     (let stmt = my_format env sql vals in
      case my_exec env stmt (my_db d) of
        Inl e \<Rightarrow> (Raised e, d\<lparr>queued := queued d @ [stmt]\<rparr>)
      | Inr db' \<Rightarrow> (Returned (), d\<lparr>my_db := db', queued := queued d @ [stmt]\<rparr>))"

definition mysql_prepare :: "'db mysql_env \<Rightarrow> model \<Rightarrow> string \<Rightarrow> 'db mysql_driver
    \<Rightarrow> unit outcome \<times> 'db mysql_driver" where
  "mysql_prepare env m name d =
     (let columns = my_columns env name (my_db d) in
      case getColDefs env m name columns of
        Inl e \<Rightarrow> (Raised e, d)
      | Inr (create, update) \<Rightarrow>
          if columns = [] then
            queue env (''CREATE TABLE ?? ('' @ join '','' create @ '') COLLATE = ?'')
              [name, my_charset env] d
          else
            let operations = map (\<lambda>def. ''ADD '' @ def) create
                             @ map (\<lambda>def. ''MODIFY '' @ def) update
            in if operations \<noteq> []
               then queue env (''ALTER TABLE ?? '' @ join '','' operations) [name] d
               else (Returned (), d))"

text \<open>
  An environment for the examples: \<open>format\<close> appends the values to the
  statement, identifiers are quoted with backticks, the server counts the statements and
  answers the column query with \<open>before\<close> while no statement has run and with
  \<open>after\<close> from then on.
\<close>

definition scripted_mysql :: "columnInfo list \<Rightarrow> columnInfo list \<Rightarrow> nat mysql_env" where
  "scripted_mysql before_columns after_columns =
     \<lparr>my_literal = (\<lambda>v table key. escape_value v), my_escapeId = backtick,
      my_format = (\<lambda>sql vals. sql @ '' -- '' @ join '', '' vals),
      my_exec = counting_engine,
      my_columns = (\<lambda>name n. if n = 0 then before_columns else after_columns),
      my_charset = ''utf8mb4_general_ci''\<rparr>"

definition liveInfo :: "string \<Rightarrow> string \<Rightarrow> columnInfo" where
  "liveInfo n t = \<lparr>COLUMN_NAME = n, IS_NULLABLE = ''YES'', DATA_TYPE = t\<rparr>"

section \<open>Notions used to state the properties of the synchronizer\<close>

text \<open>
  The declared fields \<open>prepare\<close> defines columns for, and the name of the live column
  a declared field is matched to (empty when there is none).
\<close>

definition activeFields :: "model \<Rightarrow> (string \<times> field) list" where
  "activeFields m = filter (\<lambda>(key, f). \<not> deprecated f) (model_fields m)"

definition matchedName :: "column list \<Rightarrow> string \<times> field \<Rightarrow> string" where
  "matchedName columns kf =
     (case matchColumn columns (fst kf) (snd kf) of None \<Rightarrow> [] | Some c \<Rightarrow> cname c)"

text \<open>
  Every declared field that is not deprecated is matched to a live column of its own;
  the names of the fields are distinct and those of the live columns are, and no name is
  empty.
\<close>

definition matchedOneToOne :: "model \<Rightarrow> column list \<Rightarrow> bool" where
  "matchedOneToOne m columns =
     (list_all (\<lambda>(key, f). matchColumn columns key f \<noteq> None \<and> key \<noteq> []) (activeFields m)
      \<and> distinct (map (matchedName columns) (activeFields m))
      \<and> distinct (map fst (model_fields m))
      \<and> distinct (map cname columns)
      \<and> list_all (\<lambda>c. cname c \<noteq> []) columns)"

text \<open>The variables of \<open>prepare\<close> when the migration starts.\<close>

definition migrationPlan :: "'db prepare_env \<Rightarrow> model \<Rightarrow> column list \<Rightarrow> string list option \<Rightarrow> plan" where
  "migrationPlan env m columns dropKeys =
     preserveLoop (env_sql env) dropKeys columns
       (fieldLoop (env_sql env) (env_literal env) m columns dropKeys (model_fields m) emptyPlan)"

text \<open>
  The live columns no declared field is matched to, and the condition that none of them
  bears the name of a declared field that is not deprecated.
\<close>

definition unmatchedColumns :: "model \<Rightarrow> column list \<Rightarrow> column list" where
  "unmatchedColumns m columns =
     filter (\<lambda>c. cname c \<notin> set (map (matchedName columns) (activeFields m))) columns"

definition noFieldShadowed :: "model \<Rightarrow> column list \<Rightarrow> bool" where
  "noFieldShadowed m columns =
     list_all (\<lambda>c. cname c \<notin> set (map fst (activeFields m))) (unmatchedColumns m columns)"

text \<open>
  No live column is named by an array index or by a property of \<open>Object.prototype\<close>:
  the properties of \<open>mapping\<close> are then enumerated in the order of their creation.
\<close>

definition plainNames :: "column list \<Rightarrow> bool" where
  "plainNames columns =
     list_all (\<lambda>c. arrayIndex (cname c) = None \<and> cname c \<notin> set objectProtoProps) columns"

text \<open>
  The rebuilt table, column by column: the declared fields that are not deprecated, then
  the unmatched live columns. \<open>tempColumns\<close> are the names of the columns the
  temporary table defines, \<open>tempDefs\<close> their definitions and
  \<open>selectedColumns\<close> the live columns they are to be filled from.
\<close>

definition tempColumns :: "model \<Rightarrow> column list \<Rightarrow> string list" where
  "tempColumns m columns = map fst (activeFields m) @ map cname (unmatchedColumns m columns)"

definition selectedColumns :: "model \<Rightarrow> column list \<Rightarrow> string list" where
  "selectedColumns m columns =
     map (matchedName columns) (activeFields m) @ map cname (unmatchedColumns m columns)"

definition tempDefs :: "'db prepare_env \<Rightarrow> model \<Rightarrow> column list \<Rightarrow> string list" where
  "tempDefs env m columns =
     map (\<lambda>(key, f). columnDef (env_sql env) (env_literal env) m key f) (activeFields m)
     @ map (preservedDef (env_sql env)) (unmatchedColumns m columns)"

text \<open>
  The four statements of a rebuild that copies \<open>selectedColumns\<close> into
  \<open>tempColumns\<close>, position by position.
\<close>

definition renameStatements :: "'db prepare_env \<Rightarrow> model \<Rightarrow> string \<Rightarrow> column list \<Rightarrow> string list" where
  "renameStatements env m table columns =
     [''CREATE TABLE '' @ escapeId (env_sql env) (table @ ''_temp'') @ '' (''
        @ join '', '' (tempDefs env m columns @ indexDefs (env_sql env) m) @ '')'',
      ''INSERT INTO '' @ escapeId (env_sql env) (table @ ''_temp'') @ '' SELECT ''
        @ join '', '' (map (escapeId (env_sql env)) (selectedColumns m columns))
        @ '' FROM '' @ escapeId (env_sql env) table,
      ''DROP TABLE '' @ escapeId (env_sql env) table,
      ''ALTER TABLE '' @ escapeId (env_sql env) (table @ ''_temp'') @ '' RENAME TO ''
        @ escapeId (env_sql env) table]"

text \<open>What the engine answers to statements executed in sequence.\<close>

fun execAll :: "'db engine \<Rightarrow> string list \<Rightarrow> 'db \<Rightarrow> error + 'db" where
  "execAll exec [] database = Inr database"
| "execAll exec (sql # rest) database =
     (case exec sql database of
        Inl e \<Rightarrow> Inl e
      | Inr database' \<Rightarrow> execAll exec rest database')"

text \<open>A model whose fields declare no legacy alias.\<close>

definition withoutLegacy :: "model \<Rightarrow> model" where
  "withoutLegacy m = m\<lparr>model_fields := map (\<lambda>(key, f). (key, f\<lparr>legacy := []\<rparr>)) (model_fields m)\<rparr>"

section \<open>Properties of the query compiler\<close>

text \<open>
  C1. Logical reduction: \<open>logicalAnd\<close> of the empty list is \<open>1\<close>, of a list that
  contains \<open>0\<close> it is \<open>0\<close>, otherwise the conditions joined with \<open>AND\<close>;
  \<open>logicalOr\<close> of the empty list is \<open>0\<close>, of a list that contains \<open>1\<close> it is
  \<open>1\<close>, otherwise the conditions joined with \<open>OR\<close> in parentheses; the empty
  query object compiles to \<open>1\<close>.
\<close>

theorem logical_reduction:
  "logicalAnd [] = ''1''
   \<and> (''0'' \<in> set csa \<longrightarrow> logicalAnd csa = ''0'')
   \<and> (csb \<noteq> [] \<and> ''0'' \<notin> set csb \<longrightarrow> logicalAnd csb = join '' AND '' csb)
   \<and> logicalOr [] = ''0''
   \<and> (''1'' \<in> set csc \<longrightarrow> logicalOr csc = ''1'')
   \<and> (csd \<noteq> [] \<and> ''1'' \<notin> set csd \<longrightarrow> logicalOr csd = ''('' @ join '' OR '' csd @ '')'')
   \<and> parseQuery b (JObj []) = Inr ''1''"
  by (auto simp: logicalAnd_def logicalOr_def)

theorem logical_reduction_witness:
  "logicalAnd [''a = 1'', ''0''] = ''0''
   \<and> logicalAnd [''a = 1'', ''b = 2''] = ''a = 1 AND b = 2''
   \<and> logicalOr [''1'', ''a = 1''] = ''1''
   \<and> logicalOr [''a = 1'', ''b = 2''] = ''(a = 1 OR b = 2)''
   \<and> parseQuery (specBuilder []) (JObj []) = Inr ''1''"
  using logical_reduction [where csa = "[''a = 1'', ''0'']" and csb = "[''a = 1'', ''b = 2'']"
      and csc = "[''1'', ''a = 1'']" and csd = "[''a = 1'', ''b = 2'']" and b = "specBuilder []"]
  by simp

text \<open>
  C10. For every field key, the field query \<open>{$nin: []}\<close> compiles to the constant
  \<open>1\<close>: a negated membership test over the empty list matches every row.
\<close>

theorem nin_empty_is_true:
  "parseFieldQuery b key (JObj [(''$nin'', JArr [])]) = Inr ''1''"
  by (simp add: queryOperatorNames_def leafOperator_def memberEmpty_def logicalAnd_def)

section \<open>Properties of the SQLite driver's remove\<close>

text \<open>
  C2. For every table and every query whose compiled filter is the constant \<open>0\<close>,
  \<open>remove\<close> returns without running a statement: the driver, its database included,
  is unchanged. A field query with an empty \<open>$in\<close> array (or the empty array
  shorthand) compiles to \<open>0\<close>, so removing by it issues no DELETE.
\<close>

theorem remove_short_circuit:
  "(parseQuery b (sel_query sel) = Inr ''0'' \<longrightarrow> remove b exec sel d = (Returned (), d))
   \<and> (k \<notin> {''$not'', ''$and'', ''$or'', ''$expr''} \<longrightarrow>
        parseQuery b (JObj [(k, JObj [(''$in'', JArr [])])]) = Inr ''0''
      \<and> parseQuery b (JObj [(k, JArr [])]) = Inr ''0''
      \<and> remove b exec \<lparr>sel_table = t, sel_query = JObj [(k, JObj [(''$in'', JArr [])])]\<rparr> d
          = (Returned (), d))"
  by (simp add: remove_def queryOperatorNames_def leafOperator_def memberEmpty_def logicalAnd_def)

theorem remove_short_circuit_witness:
  "parseQuery (specBuilder []) (JObj [(''id'', JObj [(''$in'', JArr [])])]) = Inr ''0''
   \<and> remove (specBuilder []) counting_engine
        \<lparr>sel_table = ''bar'', sel_query = JObj [(''id'', JObj [(''$in'', JArr [])])]\<rparr>
        (idle_driver ''bar.db'') = (Returned (), idle_driver ''bar.db'')"
  using remove_short_circuit [where b = "specBuilder []" and k = "''id''" and exec = counting_engine
      and t = "''bar''" and d = "idle_driver ''bar.db''"
      and sel = "\<lparr>sel_table = ''bar'', sel_query = JObj [(''id'', JObj [(''$in'', JArr [])])]\<rparr>"]
  by simp

text \<open>By contrast, the empty query compiles to \<open>1\<close> and the DELETE is run.\<close>

lemma remove_all_rows_example:
  "remove (specBuilder []) counting_engine \<lparr>sel_table = ''bar'', sel_query = JObj []\<rparr>
      (idle_driver ''bar.db'')
   = (Returned (), \<lparr>config_path = ''bar.db'', db = 1, writeTask = True,
        issued = [''DELETE FROM `bar` WHERE 1'']\<rparr>)"
  by (simp add: remove_def run_def logicalAnd_def specBuilder_def escape_id_def
      counting_engine_def idle_driver_def)

section \<open>Operators outside the operator tables\<close>

lemma fieldConditions_unknown:
  "list_all (\<lambda>(p, v). p \<notin> set queryOperatorNames \<and> p \<notin> set objectProtoProps) props
   \<Longrightarrow> fieldConditions b key props = Inr []"
  by (induction props) auto

lemma parseEvalKeys_unknown:
  "list_all (\<lambda>(p, v). p \<notin> set evalOperatorNames \<and> p \<notin> set objectProtoProps) props
   \<Longrightarrow> parseEvalKeys b e props = Inr (escape b e)"
  by (induction props) auto

text \<open>
  A field query with the operator key \<open>$foo\<close>, which no table knows, is not rejected:
  the key is skipped and the query compiles to \<open>1\<close>.
\<close>

theorem unknown_operator_counterexample:
  "parseQuery (specBuilder []) (JObj [(''id'', JObj [(''$foo'', JNum 1)])]) = Inr ''1''"
  by (simp add: queryOperatorNames_def objectProtoProps_def logicalAnd_def)

text \<open>
  C7 (amended). A field query skips every key that is not in \<open>queryOperators\<close>: a
  query expression made of such keys only compiles to \<open>1\<close>, and an eval expression
  without an operator key is escaped as a value; neither raises. \<open>$el\<close> applied to a
  value that is neither a number, a string nor an array raises \<open>TypeError\<close> while
  the query is compiled, so \<open>remove\<close> raises it before any statement reaches the
  engine.
\<close>

theorem unknown_operators_skipped:
  "(list_all (\<lambda>(p, v). p \<notin> set queryOperatorNames \<and> p \<notin> set objectProtoProps) props
      \<longrightarrow> parseFieldQuery b key (JObj props) = Inr ''1'')
   \<and> (list_all (\<lambda>(p, v). p \<notin> set evalOperatorNames \<and> p \<notin> set objectProtoProps) eprops
      \<longrightarrow> parseEval b (JObj eprops) = Inr (escape b (JObj eprops)))
   \<and> ((case v of JArr _ \<Rightarrow> False | JNum _ \<Rightarrow> False | JStr _ \<Rightarrow> False | _ \<Rightarrow> True)
      \<longrightarrow> queryOperator b ''$el'' key v = Inl TypeError
        \<and> parseFieldQuery b key (JObj ((''$el'', v) # rest)) = Inl TypeError
        \<and> (f \<notin> {''$not'', ''$and'', ''$or'', ''$expr''} \<longrightarrow>
             remove b exec \<lparr>sel_table = t, sel_query = JObj [(f, JObj [(''$el'', v)])]\<rparr> d
             = (Raised TypeError, d)))"
proof -
  have el: "queryOperator b ''$el'' k' v = Inl TypeError"
    if "(case v of JArr _ \<Rightarrow> False | JNum _ \<Rightarrow> False | JStr _ \<Rightarrow> False | _ \<Rightarrow> True)" for k'
    using that by (cases v) (simp_all add: leafOperator_def)
  show ?thesis
    using el
    by (simp add: fieldConditions_unknown parseEvalKeys_unknown logicalAnd_def
        queryOperatorNames_def remove_def)
qed


theorem unknown_operators_skipped_witness:
  "parseFieldQuery (specBuilder []) ''`list`'' (JObj [(''$foo'', JNum 1), (''$bar'', JNull)]) = Inr ''1''
   \<and> parseEval (specBuilder []) (JObj [(''$foo'', JNum 1)])
       = Inr (escape_value (JObj [(''$foo'', JNum 1)]))
   \<and> parseFieldQuery (specBuilder []) ''`list`'' (JObj [(''$el'', JBool True), (''$eq'', JNum 1)])
       = Inl TypeError
   \<and> remove (specBuilder []) counting_engine
        \<lparr>sel_table = ''bar'', sel_query = JObj [(''list'', JObj [(''$el'', JBool True)])]\<rparr>
        (idle_driver ''bar.db'') = (Raised TypeError, idle_driver ''bar.db'')"
  using unknown_operators_skipped [where b = "specBuilder []" and key = "''`list`''"
      and props = "[(''$foo'', JNum 1), (''$bar'', JNull)]" and eprops = "[(''$foo'', JNum 1)]"
      and v = "JBool True" and rest = "[(''$eq'', JNum 1)]"
      and f = "''list''" and exec = counting_engine and t = "''bar''"
      and d = "idle_driver ''bar.db''"]
  by (simp add: queryOperatorNames_def evalOperatorNames_def objectProtoProps_def specBuilder_def)

section \<open>Path accessors\<close>










section \<open>Snapshots of the SQLite database file\<close>

text \<open>
  With the empty path, which is not \<open>:memory:\<close>, a mutating statement schedules no
  write of the file: \<open>#run\<close> tests \<open>config.path\<close> for truthiness.
\<close>

theorem empty_path_counterexample:
  "[] \<noteq> '':memory:''
   \<and> remove (specBuilder []) counting_engine \<lparr>sel_table = ''bar'', sel_query = JObj []\<rparr>
        (idle_driver [])
     = (Returned (), \<lparr>config_path = [], db = 1, writeTask = False,
          issued = [''DELETE FROM `bar` WHERE 1'']\<rparr>)"
  by (simp add: remove_def run_def logicalAnd_def specBuilder_def escape_id_def
      counting_engine_def idle_driver_def)

text \<open>
  C9 (amended). With the path \<open>:memory:\<close>, \<open>load\<close> reads no file at start; any other
  path is read. With a non-empty path other than \<open>:memory:\<close>, every statement that
  \<open>#run\<close> executes schedules a write of the database file (one pending timer, set
  anew); with the empty path, and when the engine raises, the timer is left as it was.
\<close>

theorem snapshot_scheduling:
  "load readFile '':memory:'' = (None, [])
   \<and> (path \<noteq> '':memory:'' \<longrightarrow> load readFile path = (readFile path, [path]))
   \<and> (config_path d \<noteq> [] \<and> config_path d \<noteq> '':memory:'' \<and> exec sql (db d) = Inr db'
        \<longrightarrow> writeTask (snd (run exec sql d)))
   \<and> (config_path d = [] \<longrightarrow> writeTask (snd (run exec sql d)) = writeTask d)
   \<and> (exec sql (db d) = Inl e \<longrightarrow> writeTask (snd (run exec sql d)) = writeTask d)"
  by (auto simp: load_def run_def split: sum.splits)

theorem snapshot_scheduling_witness:
  "load (\<lambda>p. if p = ''bar.db'' then Some ''bytes'' else None) '':memory:'' = (None, [])
   \<and> load (\<lambda>p. if p = ''bar.db'' then Some ''bytes'' else None) ''bar.db''
       = (Some ''bytes'', [''bar.db''])
   \<and> writeTask (snd (run counting_engine ''DELETE FROM `bar` WHERE 1'' (idle_driver ''bar.db'')))
   \<and> \<not> writeTask (snd (run counting_engine ''DELETE FROM `bar` WHERE 1'' (idle_driver [])))
   \<and> \<not> writeTask (snd (run (\<lambda>sql n. Inl (StorageError ''no such table: bar'')) ''DELETE FROM `bar` WHERE 1''
          (idle_driver ''bar.db'')))"
  using snapshot_scheduling [where readFile = "\<lambda>p. if p = ''bar.db'' then Some ''bytes'' else None"
      and path = "''bar.db''" and d = "idle_driver ''bar.db''" and exec = counting_engine
      and sql = "''DELETE FROM `bar` WHERE 1''" and db' = 1 and e = TypeError]
    snapshot_scheduling [where readFile = "\<lambda>p. if p = ''bar.db'' then Some ''bytes'' else None"
      and path = "''bar.db''" and d = "idle_driver []" and exec = counting_engine
      and sql = "''DELETE FROM `bar` WHERE 1''" and db' = 1 and e = TypeError]
    snapshot_scheduling [where readFile = "\<lambda>p. if p = ''bar.db'' then Some ''bytes'' else None"
      and path = "''bar.db''" and d = "idle_driver ''bar.db''" and exec = "\<lambda>sql n. Inl (StorageError ''no such table: bar'')"
      and sql = "''DELETE FROM `bar` WHERE 1''" and db' = 1 and e = "StorageError ''no such table: bar''"]
  by (simp add: idle_driver_def counting_engine_def)

text \<open>
  The path \<open>:memory:\<close> is a truthy string, so \<open>#run\<close> schedules the write for it as
  for any file path (the statement above leaves this case out).
\<close>

lemma run_memory_path_schedules_write:
  "writeTask (snd (run counting_engine sql (idle_driver '':memory:'')))"
  by (simp add: run_def counting_engine_def idle_driver_def)

section \<open>Upsert\<close>

text \<open>
  C6. For the rows \<open>[{id: 1}]\<close> and the keys \<open>[id]\<close> the difference
  \<open>dataFields - keys\<close> is empty. The SQLite driver falls back to the first data
  field; the MySQL driver keeps the empty list, and its \<open>ON DUPLICATE KEY UPDATE\<close>
  clause is empty.
\<close>

theorem upsert_update_fields_divergence:
  "sqlite_updateFields [''id'', ''text''] [[(''id'', JNum 1)]] [''id''] = [Some ''id'']
   \<and> mysql_updateFields [''id'', ''text''] [[(''id'', JNum 1)]] [''id''] = []
   \<and> mysql_update expr [''id'', ''text''] [[(''id'', JNum 1)]] [''id''] = []"
  by (simp add: sqlite_updateFields_def mysql_updateFields_def mysql_update_def difference_def
      dataFields_def mergedKeys_def rootField_def uniq_def)

lemma sqlite_updateFields_nonempty:
  "sqlite_updateFields fieldNames data keys \<noteq> []"
  by (simp add: sqlite_updateFields_def Let_def)

section \<open>Round trips of the cast plugins\<close>

lemma split_on_no_separator: "c \<notin> set s \<Longrightarrow> split_on c s = [s]"
  by (induction s) auto

lemma split_on_append:
  "c \<notin> set s \<Longrightarrow> split_on c (s @ c # r) = s # split_on c r"
  by (induction s) auto

lemma split_on_join:
  "xs \<noteq> [] \<Longrightarrow> \<forall>s\<in>set xs. c \<notin> set s \<Longrightarrow> split_on c (join [c] xs) = xs"
  by (induction "[c]" xs rule: join.induct) (simp_all add: split_on_no_separator split_on_append)

lemma join_empty_iff:
  "join [c] xs = [] \<longleftrightarrow> xs = [] \<or> xs = [[]]"
  by (induction "[c]" xs rule: join.induct) simp_all

text \<open>
  A list element with a comma does not survive: \<open>[a,b]\<close> (one element) is stored as
  \<open>a,b\<close> and read back as two elements.
\<close>

theorem list_round_trip_counterexample:
  "load_list (dump_list [''a,b'']) \<noteq> [''a,b'']"
  by (simp add: load_list_def dump_list_def)

text \<open>
  C4 (amended). The boolean plugin and the date plugin round-trip every value; the json
  plugin does wherever \<open>JSON.parse\<close> inverts \<open>JSON.stringify\<close> and the text is not
  empty; the list plugin round-trips every string array whose elements contain no comma
  and that is not the array of one empty string.
\<close>

theorem cast_round_trip:
  "load_boolean (dump_boolean x) = x
   \<and> (xs \<noteq> [[]] \<and> (\<forall>s\<in>set xs. CHR '','' \<notin> set s) \<longrightarrow> load_list (dump_list xs) = xs)
   \<and> ((\<forall>v. parse (stringify v) = v) \<and> stringify j \<noteq> []
        \<longrightarrow> load_json parse (dump_json stringify j) fallback = j)
   \<and> (case dump_date (JDate t) of Inl e \<Rightarrow> Inl e | Inr stored \<Rightarrow> load_date stored) = Inr (JDate t)
   \<and> (case dump_date JNull of Inl e \<Rightarrow> Inl e | Inr stored \<Rightarrow> load_date stored) = Inr JNull"
proof -
  have "load_list (dump_list xs) = xs" if "xs \<noteq> [[]]" "\<forall>s\<in>set xs. CHR '','' \<notin> set s"
  proof (cases "xs = []")
    case True
    then show ?thesis by (simp add: load_list_def dump_list_def)
  next
    case False
    with that(1) have "join '','' xs \<noteq> []" by (simp add: join_empty_iff)
    with False that(2) show ?thesis
      by (simp add: load_list_def dump_list_def split_on_join)
  qed
  then show ?thesis
    by (simp add: load_boolean_def dump_boolean_def load_json_def dump_json_def)
qed

theorem cast_round_trip_witness:
  "load_boolean (dump_boolean True) = True
   \<and> dump_list [''1'', ''1'', ''4''] = ''1,1,4''
   \<and> load_list (dump_list [''1'', ''1'', ''4'']) = [''1'', ''1'', ''4'']
   \<and> load_json (\<lambda>s. s = ''true'') (dump_json (\<lambda>v. if v then ''true'' else ''false'') True) False
       = True
   \<and> dump_date (JDate 19785600000) = Inr (JNum 19785600000)"
  using cast_round_trip [where x = True and xs = "[''1'', ''1'', ''4'']"
      and parse = "\<lambda>s. s = ''true''" and stringify = "\<lambda>v. if v then ''true'' else ''false''"
      and j = True and fallback = False and t = 19785600000]
  by (simp add: dump_list_def)

section \<open>Idempotence of prepare\<close>

text \<open>
  On a synchronized table the loop over the declared fields neither asks for a migration
  nor collects a column to add, and \<open>prepare\<close> issues nothing when no migration hook
  applies. The MySQL driver issues nothing when every declared field has a live column of
  its name.
\<close>

lemma fieldLoop_synchronized:
  assumes "\<forall>(key, f)\<in>set fs. \<not> deprecated f \<longrightarrow>
      (\<exists>c. matchColumn columns key f = Some c \<and> cname c = key \<and> ctype c = getTypeDef (ftype f))"
  shows "shouldMigrate (fieldLoop b lit m columns None fs p) = shouldMigrate p
       \<and> alter (fieldLoop b lit m columns None fs p) = alter p"
  using assms
proof (induction fs arbitrary: p)
  case Nil
  show ?case by simp
next
  case (Cons kf fs)
  obtain key f where kf: "kf = (key, f)" by (cases kf)
  from Cons.prems have rest: "\<forall>(key, f)\<in>set fs. \<not> deprecated f \<longrightarrow>
      (\<exists>c. matchColumn columns key f = Some c \<and> cname c = key \<and> ctype c = getTypeDef (ftype f))"
    by simp
  show ?case
  proof (cases "deprecated f")
    case True
    with Cons.IH [OF rest] kf show ?thesis by (simp add: dropIncludes_def)
  next
    case False
    with Cons.prems kf obtain c where "matchColumn columns key f = Some c" "cname c = key"
      "ctype c = getTypeDef (ftype f)" by auto
    with False Cons.IH [OF rest] kf show ?thesis by (simp add: Let_def)
  qed
qed

lemma migrate_none:
  "list_all (\<lambda>(callback, keys). \<not> beforeHook keys) migrations
   \<Longrightarrow> migrate migrations beforeHook d = ([], d)"
  by (induction migrations) auto

lemma sqlite_prepare_synchronized:
  assumes "synchronized m (env_table_info env table (db d))"
    and "list_all (\<lambda>(callback, keys). \<not> before_hook (env_table_info env table (db d)) keys) migrations"
  shows "prepare env migrations m table d = (Returned (), d)"
proof -
  let ?columns = "env_table_info env table (db d)"
  let ?p = "fieldLoop (env_sql env) (env_literal env) m ?columns None (model_fields m) emptyPlan"
  from assms(1) have ne: "?columns \<noteq> []" by (simp add: synchronized_def)
  from assms(1) have "\<forall>(key, f)\<in>set (model_fields m). \<not> deprecated f \<longrightarrow>
      (\<exists>c. matchColumn ?columns key f = Some c \<and> cname c = key \<and> ctype c = getTypeDef (ftype f))"
    by (auto simp: synchronized_def list_all_iff split: option.splits)
  then have "shouldMigrate ?p = False" "alter ?p = []"
    using fieldLoop_synchronized [of "model_fields m" ?columns "env_sql env" "env_literal env" m emptyPlan]
    by (simp_all add: emptyPlan_def)
  with ne have "prepareSchema env m table ?columns None d = (Returned (), d)"
    by (simp add: prepareSchema_def Let_def)
  with migrate_none [OF assms(2)] show ?thesis
    by (simp add: prepare_def Let_def)
qed

lemma colDefLoop_all_found:
  "list_all (\<lambda>(key, f). list_ex (\<lambda>info. COLUMN_NAME info = key) columns) fs
   \<Longrightarrow> colDefLoop env m name columns fs = Inr create \<Longrightarrow> create = []"
proof (induction fs arbitrary: create)
  case Nil
  then show ?case by simp
next
  case (Cons kf fs)
  obtain key f where kf: "kf = (key, f)" by (cases kf)
  from Cons.prems(1) kf have found: "find (\<lambda>info. COLUMN_NAME info = key) columns \<noteq> None"
    and rest: "list_all (\<lambda>(key, f). list_ex (\<lambda>info. COLUMN_NAME info = key) columns) fs"
    by (auto simp: find_None_iff list_ex_iff)
  from Cons.prems(2) kf found obtain create' where
    "colDefLoop env m name columns fs = Inr create'" "create = create'"
    by (auto split: sum.splits)
  with Cons.IH [OF rest] show ?case by simp
qed

lemma mysql_prepare_synchronized:
  assumes "my_columns env name (my_db d) \<noteq> []"
    and "list_all (\<lambda>(key, f). list_ex (\<lambda>info. COLUMN_NAME info = key) (my_columns env name (my_db d)))
           (model_fields m)"
  shows "snd (mysql_prepare env m name d) = d"
proof (cases "colDefLoop env m name (my_columns env name (my_db d)) (model_fields m)")
  case (Inl e)
  then show ?thesis by (simp add: mysql_prepare_def getColDefs_def)
next
  case (Inr create)
  have "create = []" by (rule colDefLoop_all_found [OF assms(2) Inr])
  with Inr assms(1) show ?thesis by (simp add: mysql_prepare_def getColDefs_def)
qed

text \<open>Every statement handed to \<open>#run\<close> is recorded, whatever the engine answers.\<close>

lemma run_issued: "issued (snd (run exec sql d)) = issued d @ [sql]"
  by (simp add: run_def split: sum.splits)

lemma runAll_issued: "\<exists>ys. issued (snd (runAll exec stmts d)) = issued d @ ys"
proof (induction stmts arbitrary: d)
  case Nil
  show ?case by simp
next
  case (Cons sql rest)
  obtain r d' where r: "run exec sql d = (r, d')" by (cases "run exec sql d")
  with run_issued [of exec sql d] have d': "issued d' = issued d @ [sql]" by simp
  show ?case
  proof (cases r)
    case (Raised e)
    with r d' show ?thesis by simp
  next
    case (Returned u)
    from Cons.IH [of d'] obtain ys where "issued (snd (runAll exec rest d')) = issued d' @ ys" ..
    with r d' Returned show ?thesis by simp
  qed
qed

lemma rebuild_issued:
  "\<exists>ys. issued (snd (rebuild exec b m table p d))
     = issued d @ [hd (migrateStatements b m table p)] @ ys"
proof -
  let ?stmts = "migrateStatements b m table p"
  have hd0: "?stmts ! 0 = hd ?stmts" by (simp add: migrateStatements_def Let_def)
  obtain r d1 where r: "run exec (?stmts ! 0) d = (r, d1)" by (cases "run exec (?stmts ! 0) d")
  with run_issued [of exec "?stmts ! 0" d] hd0 have d1: "issued d1 = issued d @ [hd ?stmts]" by simp
  show ?thesis
  proof (cases r)
    case (Raised e)
    with r d1 show ?thesis by (simp add: rebuild_def Let_def)
  next
    case (Returned u)
    obtain r2 d2 where r2: "runAll exec [?stmts ! 1, ?stmts ! 2] d1 = (r2, d2)"
      by (cases "runAll exec [?stmts ! 1, ?stmts ! 2] d1")
    from runAll_issued [of exec "[?stmts ! 1, ?stmts ! 2]" d1] r2
    obtain ys where d2: "issued d2 = issued d1 @ ys" by auto
    show ?thesis
    proof (cases r2)
      case (Raised e)
      let ?drop = "''DROP TABLE '' @ escapeId b (table @ ''_temp'')"
      obtain r3 d3 where r3: "run exec ?drop d2 = (r3, d3)" by (cases "run exec ?drop d2")
      with run_issued [of exec ?drop d2] have "issued d3 = issued d2 @ [?drop]" by simp
      with r Returned r2 Raised r3 d1 d2 show ?thesis
        by (cases r3) (simp_all add: rebuild_def Let_def)
    next
      case (Returned u2)
      obtain r3 d3 where r3: "run exec (?stmts ! 3) d2 = (r3, d3)" by (cases "run exec (?stmts ! 3) d2")
      with run_issued [of exec "?stmts ! 3" d2] have "issued d3 = issued d2 @ [?stmts ! 3]" by simp
      with r \<open>r = Returned u\<close> r2 Returned r3 d1 d2 show ?thesis
        by (simp add: rebuild_def Let_def)
    qed
  qed
qed

lemma alias_clash_plan:
  assumes "cname cb = ''b''" and "cname ca = ''a''"
  shows "prepareSchema env alias_clash_model table [cb, ca] None d
         = rebuild (env_exec env) (env_sql env) alias_clash_model table
             \<lparr>columnDefs = [escapeId (env_sql env) ''b'' @ '' TEXT NULL'',
                            escapeId (env_sql env) ''a'' @ '' TEXT NULL'',
                            preservedDef (env_sql env) ca],
              alter = [], mapping = [(''b'', ''a''), (''a'', ''a'')], shouldMigrate = True\<rparr> d"
  using assms
  by (simp add: prepareSchema_def alias_clash_model_def plainField_def emptyPlan_def
      matchColumn_def columnDef_def mapped_def dropIncludes_def isNullable_def
      setProperty_def objectProtoProps_def Let_def)


lemma alias_clash_mysql:
  assumes "map COLUMN_NAME (my_columns menv table (my_db md)) = [''b'', ''a'']"
  shows "mysql_prepare menv alias_clash_model table md = (Returned (), md)"
proof -
  from assms obtain x y where cs: "my_columns menv table (my_db md) = [x, y]"
    and x: "COLUMN_NAME x = ''b''" and y: "COLUMN_NAME y = ''a''"
    by (auto simp: map_eq_Cons_conv)
  show ?thesis
    by (simp add: mysql_prepare_def getColDefs_def mysqlColumnDef_def getTypeDefinition_def
        alias_clash_model_def plainField_def cs x y Let_def)
qed

text \<open>
  C3. The model declares the fields \<open>b\<close> and \<open>a\<close>, and \<open>a\<close> has the legacy alias
  \<open>b\<close>. The first \<open>prepare\<close> creates the table with the columns \<open>b\<close> and \<open>a\<close>.
  On that table the second \<open>prepare\<close> matches the field \<open>a\<close> to the column \<open>b\<close>
  (the first live column named by the field or its alias), starts a migration and asks
  for a temporary table that defines the column \<open>a\<close> twice, once for the field and
  once for the live column \<open>a\<close> it preserves: this statement is issued whatever the
  engine answers, and when the engine rejects it \<open>prepare\<close> raises. The MySQL driver,
  which looks a field up by its name only, issues nothing on the same table.
\<close>

theorem prepare_alias_clash:
  assumes "env_table_info env table (db d) = [cb, ca]" and "cname cb = ''b''" and "cname ca = ''a''"
  shows "let b = env_sql env;
             createTable = ''CREATE TABLE '' @ escapeId b table @ '' (''
               @ join '', '' [escapeId b ''b'' @ '' TEXT NULL'', escapeId b ''a'' @ '' TEXT NULL'',
                              ''PRIMARY KEY (`b`)''] @ '')'';
             createTemp = ''CREATE TABLE '' @ escapeId b (table @ ''_temp'') @ '' (''
               @ join '', '' [escapeId b ''b'' @ '' TEXT NULL'', escapeId b ''a'' @ '' TEXT NULL'',
                              preservedDef b ca, ''PRIMARY KEY (`b`)''] @ '')''
         in (env_table_info env table (db dnew) = []
               \<longrightarrow> prepare env [] alias_clash_model table dnew = run (env_exec env) createTable dnew)
          \<and> take (length (escapeId b ''a'')) (preservedDef b ca) = escapeId b ''a''
          \<and> take (Suc (length (issued d))) (issued (snd (prepare env [] alias_clash_model table d)))
              = issued d @ [createTemp]
          \<and> (env_exec env createTemp (db d) = Inl e
               \<longrightarrow> prepare env migrations alias_clash_model table d
                   = (Raised e, d\<lparr>issued := issued d @ [createTemp]\<rparr>))
          \<and> (map COLUMN_NAME (my_columns menv table (my_db md)) = [''b'', ''a'']
               \<longrightarrow> mysql_prepare menv alias_clash_model table md = (Returned (), md))"
proof -
  let ?b = "env_sql env"
  let ?createTable = "''CREATE TABLE '' @ escapeId ?b table @ '' (''
               @ join '', '' [escapeId ?b ''b'' @ '' TEXT NULL'', escapeId ?b ''a'' @ '' TEXT NULL'',
                              ''PRIMARY KEY (`b`)''] @ '')''"
  let ?createTemp = "''CREATE TABLE '' @ escapeId ?b (table @ ''_temp'') @ '' (''
               @ join '', '' [escapeId ?b ''b'' @ '' TEXT NULL'', escapeId ?b ''a'' @ '' TEXT NULL'',
                              preservedDef ?b ca, ''PRIMARY KEY (`b`)''] @ '')''"
  let ?p = "\<lparr>columnDefs = [escapeId ?b ''b'' @ '' TEXT NULL'', escapeId ?b ''a'' @ '' TEXT NULL'',
                            preservedDef ?b ca],
              alter = [], mapping = [(''b'', ''a''), (''a'', ''a'')], shouldMigrate = True\<rparr>"
  note plan = alias_clash_plan [OF assms(2,3), of env table d]
  have first: "migrateStatements ?b alias_clash_model table ?p ! 0 = ?createTemp"
    and first': "hd (migrateStatements ?b alias_clash_model table ?p) = ?createTemp"
    by (simp_all add: migrateStatements_def indexDefs_def joinKeys_def alias_clash_model_def Let_def)
  have c0: "env_table_info env table (db dnew) = []
      \<Longrightarrow> prepare env [] alias_clash_model table dnew = run (env_exec env) ?createTable dnew"
  proof -
    assume empty: "env_table_info env table (db dnew) = []"
    obtain r d' where r: "run (env_exec env) ?createTable dnew = (r, d')"
      by (cases "run (env_exec env) ?createTable dnew")
    have "prepareSchema env alias_clash_model table [] None dnew = (r, d')"
      using r
      by (simp add: prepareSchema_def alias_clash_model_def plainField_def emptyPlan_def
          matchColumn_def columnDef_def isNullable_def indexDefs_def joinKeys_def Let_def)
    with empty r show ?thesis
      by (cases r) (simp_all add: prepare_def Let_def)
  qed
  have c1: "take (length (escapeId ?b ''a'')) (preservedDef ?b ca) = escapeId ?b ''a''"
    using assms(3) by (simp add: preservedDef_def)
  have c2: "take (Suc (length (issued d))) (issued (snd (prepare env [] alias_clash_model table d)))
      = issued d @ [?createTemp]"
  proof -
    from rebuild_issued [of "env_exec env" ?b alias_clash_model table ?p d] first'
    obtain ys where ys: "issued (snd (rebuild (env_exec env) ?b alias_clash_model table ?p d))
        = issued d @ [?createTemp] @ ys" by auto
    obtain r d' where r: "rebuild (env_exec env) ?b alias_clash_model table ?p d = (r, d')"
      by (cases "rebuild (env_exec env) ?b alias_clash_model table ?p d") 
    with ys have d': "issued d' = issued d @ [?createTemp] @ ys" by simp
    from r plan assms(1) have "prepare env [] alias_clash_model table d = (r, d')"
      by (cases r) (simp_all add: prepare_def Let_def)
    with d' show ?thesis by simp
  qed
  have c3: "env_exec env ?createTemp (db d) = Inl e
      \<Longrightarrow> prepare env migrations alias_clash_model table d
          = (Raised e, d\<lparr>issued := issued d @ [?createTemp]\<rparr>)"
  proof -
    assume rejected: "env_exec env ?createTemp (db d) = Inl e"
    then have "rebuild (env_exec env) ?b alias_clash_model table ?p d
        = (Raised e, d\<lparr>issued := issued d @ [?createTemp]\<rparr>)"
      by (simp add: rebuild_def first run_def Let_def)
    with plan assms(1) show ?thesis by (simp add: prepare_def Let_def)
  qed
  from c0 c1 c2 c3 alias_clash_mysql [of menv table md] show ?thesis
    by (simp add: Let_def)
qed

theorem prepare_alias_clash_witness:
  "prepare
     ((scripted_env [] [(liveColumn ''b'' ''TEXT'')\<lparr>pk := True\<rparr>, (liveColumn ''a'' ''TEXT'')\<lparr>cid := 1\<rparr>])
        \<lparr>env_exec := rejecting_engine
           [''CREATE TABLE `t_temp` (`b` TEXT NULL, `a` TEXT NULL, `a` TEXT NULL, PRIMARY KEY (`b`))'']
           (StorageError ''duplicate column name: a'')\<rparr>)
     [] alias_clash_model ''t'' (idle_driver ''t.db'')
   = (Returned (), \<lparr>config_path = ''t.db'', db = 1, writeTask = True,
        issued = [''CREATE TABLE `t` (`b` TEXT NULL, `a` TEXT NULL, PRIMARY KEY (`b`))'']\<rparr>)
   \<and> prepare
     ((scripted_env [] [(liveColumn ''b'' ''TEXT'')\<lparr>pk := True\<rparr>, (liveColumn ''a'' ''TEXT'')\<lparr>cid := 1\<rparr>])
        \<lparr>env_exec := rejecting_engine
           [''CREATE TABLE `t_temp` (`b` TEXT NULL, `a` TEXT NULL, `a` TEXT NULL, PRIMARY KEY (`b`))'']
           (StorageError ''duplicate column name: a'')\<rparr>)
     [] alias_clash_model ''t''
     \<lparr>config_path = ''t.db'', db = 1, writeTask = True,
       issued = [''CREATE TABLE `t` (`b` TEXT NULL, `a` TEXT NULL, PRIMARY KEY (`b`))'']\<rparr>
   = (Raised (StorageError ''duplicate column name: a''),
      \<lparr>config_path = ''t.db'', db = 1, writeTask = True,
       issued = [''CREATE TABLE `t` (`b` TEXT NULL, `a` TEXT NULL, PRIMARY KEY (`b`))'',
                 ''CREATE TABLE `t_temp` (`b` TEXT NULL, `a` TEXT NULL, `a` TEXT NULL, PRIMARY KEY (`b`))'']\<rparr>)
   \<and> mysql_prepare (scripted_mysql [] [liveInfo ''b'' ''varchar'', liveInfo ''a'' ''varchar''])
       alias_clash_model ''t'' \<lparr>my_db = 1, queued = []\<rparr>
     = (Returned (), \<lparr>my_db = 1, queued = []\<rparr>)"
proof -
  define cb where "cb = (liveColumn ''b'' ''TEXT'')\<lparr>pk := True\<rparr>"
  define ca where "ca = (liveColumn ''a'' ''TEXT'')\<lparr>cid := 1\<rparr>"
  define env where "env = (scripted_env [] [cb, ca])
        \<lparr>env_exec := rejecting_engine
           [''CREATE TABLE `t_temp` (`b` TEXT NULL, `a` TEXT NULL, `a` TEXT NULL, PRIMARY KEY (`b`))'']
           (StorageError ''duplicate column name: a'')\<rparr>"
  define menv where "menv = scripted_mysql [] [liveInfo ''b'' ''varchar'', liveInfo ''a'' ''varchar'']"
  define d1 where "d1 = \<lparr>config_path = ''t.db'', db = 1::nat, writeTask = True,
       issued = [''CREATE TABLE `t` (`b` TEXT NULL, `a` TEXT NULL, PRIMARY KEY (`b`))'']\<rparr>"
  define md where "md = \<lparr>my_db = 1::nat, queued = []\<rparr>"
  have h1: "env_table_info env ''t'' (db d1) = [cb, ca]"
    by (simp add: env_def scripted_env_def d1_def)
  have h2: "cname cb = ''b''" and h3: "cname ca = ''a''"
    by (simp_all add: cb_def ca_def liveColumn_def)
  have h0: "env_table_info env ''t'' (db (idle_driver ''t.db'')) = []"
    by (simp add: env_def scripted_env_def idle_driver_def)
  have sql: "env_sql env = specBuilder []" and exec: "env_exec env = rejecting_engine
           [''CREATE TABLE `t_temp` (`b` TEXT NULL, `a` TEXT NULL, `a` TEXT NULL, PRIMARY KEY (`b`))'']
           (StorageError ''duplicate column name: a'')"
    by (simp_all add: env_def scripted_env_def)
  have ids: "escapeId (specBuilder []) ''t'' = ''`t`''" "escapeId (specBuilder []) ''t_temp'' = ''`t_temp`''"
    "escapeId (specBuilder []) ''a'' = ''`a`''" "escapeId (specBuilder []) ''b'' = ''`b`''"
    by (simp_all add: specBuilder_def escape_id_def)
  have kept: "preservedDef (specBuilder []) ca = ''`a` TEXT NULL''"
    by (simp add: preservedDef_def ca_def liveColumn_def ids)
  have h4: "map COLUMN_NAME (my_columns menv ''t'' (my_db md)) = [''b'', ''a'']"
    by (simp add: menv_def md_def scripted_mysql_def liveInfo_def)
  note inst = prepare_alias_clash [where dnew = "idle_driver ''t.db''"
      and e = "StorageError ''duplicate column name: a''" and migrations = "[]"
      and menv = menv and md = md, OF h1 h2 h3]
  from inst h0 have first: "prepare env [] alias_clash_model ''t'' (idle_driver ''t.db'')
      = (Returned (), d1)"
    by (simp add: Let_def sql exec ids kept run_def rejecting_engine_def idle_driver_def d1_def)
  have rejected: "env_exec env
      ''CREATE TABLE `t_temp` (`b` TEXT NULL, `a` TEXT NULL, `a` TEXT NULL, PRIMARY KEY (`b`))'' (db d1)
      = Inl (StorageError ''duplicate column name: a'')"
    by (simp add: exec rejecting_engine_def)
  from inst rejected have second: "prepare env [] alias_clash_model ''t'' d1
      = (Raised (StorageError ''duplicate column name: a''),
         d1\<lparr>issued := issued d1
           @ [''CREATE TABLE `t_temp` (`b` TEXT NULL, `a` TEXT NULL, `a` TEXT NULL, PRIMARY KEY (`b`))'']\<rparr>)"
    by (simp add: Let_def sql ids kept)
  from inst h4 have third: "mysql_prepare menv alias_clash_model ''t'' md = (Returned (), md)"
    by (simp add: Let_def)
  from first second third show ?thesis
    by (simp add: env_def cb_def ca_def menv_def d1_def md_def)
qed

section \<open>Legacy aliases\<close>

text \<open>
  The two loops of \<open>prepare\<close> in closed form, for a live table on which every
  declared field is matched to a column of its own.
\<close>

lemma assign_append: "k \<notin> fst ` set mp \<Longrightarrow> assign mp k v = mp @ [(k, v)]"
  by (induction mp) auto

lemma setProperty_append:
  "k \<notin> fst ` set mp \<Longrightarrow> k \<noteq> ''__proto__'' \<Longrightarrow> setProperty mp k v = mp @ [(k, v)]"
  by (simp add: setProperty_def assign_append)

lemma proto_inherited: "''__proto__'' \<in> set objectProtoProps"
  by (simp add: objectProtoProps_def)

lemma objectKeys_plain:
  "\<forall>k\<in>fst ` set obj. arrayIndex k = None \<Longrightarrow> objectKeys obj = map fst obj"
proof -
  assume plain: "\<forall>k\<in>fst ` set obj. arrayIndex k = None"
  then have "filter (\<lambda>k. arrayIndex k \<noteq> None) (map fst obj) = []"
    by (auto simp: filter_empty_conv)
  moreover from plain have "filter (\<lambda>k. arrayIndex k = None) (map fst obj) = map fst obj"
    by (auto simp: filter_id_conv)
  ultimately show ?thesis by (simp add: objectKeys_def Let_def)
qed

lemma fieldLoop_closed_form:
  assumes "\<forall>kf\<in>set fs. \<not> deprecated (snd kf) \<longrightarrow> matchColumn columns (fst kf) (snd kf) \<noteq> None"
    and "distinct (map (matchedName columns) (filter (\<lambda>(key, f). \<not> deprecated f) fs))"
    and "\<forall>kf\<in>set fs. \<not> deprecated (snd kf) \<longrightarrow> matchedName columns kf \<notin> fst ` set (mapping p)"
    and "\<forall>kf\<in>set fs. \<not> deprecated (snd kf) \<longrightarrow> matchedName columns kf \<noteq> ''__proto__''"
  shows "columnDefs (fieldLoop b lit m columns None fs p)
           = columnDefs p @ map (\<lambda>(key, f). columnDef b lit m key f) (filter (\<lambda>(key, f). \<not> deprecated f) fs)
       \<and> mapping (fieldLoop b lit m columns None fs p)
           = mapping p @ map (\<lambda>kf. (matchedName columns kf, fst kf)) (filter (\<lambda>(key, f). \<not> deprecated f) fs)
       \<and> (shouldMigrate p \<longrightarrow> shouldMigrate (fieldLoop b lit m columns None fs p))
       \<and> (\<forall>kf\<in>set fs. \<not> deprecated (snd kf) \<and> matchedName columns kf \<noteq> fst kf
             \<longrightarrow> shouldMigrate (fieldLoop b lit m columns None fs p))"
  using assms
proof (induction fs arbitrary: p)
  case Nil
  show ?case by simp
next
  case (Cons kf fs)
  obtain key f where kf: "kf = (key, f)" by (cases kf)
  show ?case
  proof (cases "deprecated f")
    case True
    from Cons.prems have "\<forall>kf\<in>set fs. \<not> deprecated (snd kf) \<longrightarrow> matchColumn columns (fst kf) (snd kf) \<noteq> None"
      and "distinct (map (matchedName columns) (filter (\<lambda>(key, f). \<not> deprecated f) fs))"
      and "\<forall>kf\<in>set fs. \<not> deprecated (snd kf) \<longrightarrow> matchedName columns kf \<notin> fst ` set (mapping p)"
      and "\<forall>kf\<in>set fs. \<not> deprecated (snd kf) \<longrightarrow> matchedName columns kf \<noteq> ''__proto__''"
      using True kf by auto
    from Cons.IH [OF this] True kf show ?thesis
      by (simp add: dropIncludes_def)
  next
    case False
    with Cons.prems(1) kf obtain c where c: "matchColumn columns key f = Some c" by auto
    then have mn: "matchedName columns (key, f) = cname c" by (simp add: matchedName_def)
    from Cons.prems(3) kf False mn have fresh: "cname c \<notin> fst ` set (mapping p)" by auto
    from Cons.prems(4) kf False mn have own: "cname c \<noteq> ''__proto__''" by auto
    let ?p' = "p\<lparr>columnDefs := columnDefs p @ [columnDef b lit m key f],
                 mapping := mapping p @ [(cname c, key)],
                 shouldMigrate := (shouldMigrate p \<or> cname c \<noteq> key \<or> ctype c \<noteq> getTypeDef (ftype f))\<rparr>"
    have step: "fieldLoop b lit m columns None (kf # fs) p = fieldLoop b lit m columns None fs ?p'"
      using kf False c fresh own by (simp add: Let_def setProperty_append)
    from Cons.prems(1)
    have a1: "\<forall>kf\<in>set fs. \<not> deprecated (snd kf) \<longrightarrow> matchColumn columns (fst kf) (snd kf) \<noteq> None"
      by simp
    from Cons.prems(2) False kf mn
    have a2: "distinct (map (matchedName columns) (filter (\<lambda>(key, f). \<not> deprecated f) fs))"
      and other: "cname c \<notin> matchedName columns ` set (filter (\<lambda>(key, f). \<not> deprecated f) fs)"
      by simp_all
    have a3: "\<forall>kf\<in>set fs. \<not> deprecated (snd kf) \<longrightarrow> matchedName columns kf \<notin> fst ` set (mapping ?p')"
    proof (intro ballI impI)
      fix kf' assume in_fs: "kf' \<in> set fs" and act: "\<not> deprecated (snd kf')"
      then have "kf' \<in> set (filter (\<lambda>(key, f). \<not> deprecated f) fs)"
        by (simp add: case_prod_beta)
      then have "matchedName columns kf' \<in> matchedName columns ` set (filter (\<lambda>(key, f). \<not> deprecated f) fs)"
        by (rule imageI)
      with other have "matchedName columns kf' \<noteq> cname c" by metis
      moreover from Cons.prems(3) in_fs act
      have "matchedName columns kf' \<notin> fst ` set (mapping p)" by simp
      ultimately show "matchedName columns kf' \<notin> fst ` set (mapping ?p')" by simp
    qed
    from Cons.prems(4)
    have a4: "\<forall>kf\<in>set fs. \<not> deprecated (snd kf) \<longrightarrow> matchedName columns kf \<noteq> ''__proto__''"
      by simp
    from Cons.IH [OF a1 a2 a3 a4] step False kf mn show ?thesis
      by auto
  qed
qed

lemma preserveLoop_closed_form:
  assumes "distinct (map cname cs)" and "\<forall>c\<in>set cs. cname c \<noteq> []"
    and "\<forall>kv\<in>set (mapping p). snd kv \<noteq> []"
  shows "columnDefs (preserveLoop b None cs p)
           = columnDefs p @ map (preservedDef b)
               (filter (\<lambda>c. map_of (mapping p) (cname c) = None \<and> cname c \<notin> set objectProtoProps) cs)
       \<and> mapping (preserveLoop b None cs p)
           = mapping p @ map (\<lambda>c. (cname c, cname c))
               (filter (\<lambda>c. map_of (mapping p) (cname c) = None \<and> cname c \<notin> set objectProtoProps) cs)
       \<and> shouldMigrate (preserveLoop b None cs p) = shouldMigrate p"
  using assms
proof (induction cs arbitrary: p)
  case Nil
  show ?case by simp
next
  case (Cons c cs)
  from Cons.prems have d: "distinct (map cname cs)" and ne: "\<forall>c\<in>set cs. cname c \<noteq> []"
    and cne: "cname c \<noteq> []" and notin: "cname c \<notin> cname ` set cs"
    by simp_all
  have later: "\<forall>c'\<in>set cs. cname c' \<noteq> cname c"
  proof (intro ballI notI)
    fix c' assume "c' \<in> set cs" and eq: "cname c' = cname c"
    then have "cname c' \<in> cname ` set cs" by (intro imageI)
    with eq notin show False by simp
  qed
  show ?case
  proof (cases "map_of (mapping p) (cname c)")
    case (Some key)
    then have "(cname c, key) \<in> set (mapping p)" by (rule map_of_SomeD)
    with Cons.prems(3) have "key \<noteq> []" by auto
    with Some have skip: "mapped (mapping p) (cname c)" by (simp add: mapped_def)
    from Cons.IH [OF d ne Cons.prems(3)] skip Some show ?thesis by simp
  next
    case None
    show ?thesis
    proof (cases "cname c \<in> set objectProtoProps")
      case True
      with None have skip: "mapped (mapping p) (cname c)" by (simp add: mapped_def)
      from Cons.IH [OF d ne Cons.prems(3)] skip True show ?thesis by simp
    next
      case False
      with None have keep: "\<not> mapped (mapping p) (cname c)" by (simp add: mapped_def)
      from None have fresh: "cname c \<notin> fst ` set (mapping p)"
        by (simp add: map_of_eq_None_iff)
      from False proto_inherited have own: "cname c \<noteq> ''__proto__''" by metis
      let ?p' = "p\<lparr>columnDefs := columnDefs p @ [preservedDef b c],
                   mapping := mapping p @ [(cname c, cname c)]\<rparr>"
      have step: "preserveLoop b None (c # cs) p = preserveLoop b None cs ?p'"
        using keep fresh own by (simp add: dropIncludes_def setProperty_append)
      have vals: "\<forall>kv\<in>set (mapping ?p'). snd kv \<noteq> []"
        using Cons.prems(3) cne by auto
      have same: "filter (\<lambda>c'. map_of (mapping ?p') (cname c') = None \<and> cname c' \<notin> set objectProtoProps) cs
          = filter (\<lambda>c'. map_of (mapping p) (cname c') = None \<and> cname c' \<notin> set objectProtoProps) cs"
        using later by (intro filter_cong) (auto simp: map_add_def split: option.splits)
      from Cons.IH [OF d ne vals] step same None False show ?thesis by simp
    qed
  qed
qed

lemma rebuild_accepted:
  assumes "execAll exec (migrateStatements b m table p) (db d) = Inr database"
  shows "rebuild exec b m table p d
         = (Returned (), d\<lparr>db := database, issued := issued d @ migrateStatements b m table p,
                           writeTask := (config_path d \<noteq> [] \<or> writeTask d)\<rparr>)"
proof -
  obtain s0 s1 s2 s3 where stmts: "migrateStatements b m table p = [s0, s1, s2, s3]"
    by (simp add: migrateStatements_def Let_def)
  from assms obtain db0 db1 db2 where
    e0: "exec s0 (db d) = Inr db0" and e1: "exec s1 db0 = Inr db1"
    and e2: "exec s2 db1 = Inr db2" and e3: "exec s3 db2 = Inr database"
    unfolding stmts by (auto split: sum.splits)
  show ?thesis
    unfolding rebuild_def stmts
    by (simp add: run_def e0 e1 e2 e3 Let_def)
qed

lemma mysqlColumnDef_legacy:
  assumes "primary m' = primary m" and "autoInc m' = autoInc m"
  shows "mysqlColumnDef env m' name key (f\<lparr>legacy := []\<rparr>) = mysqlColumnDef env m name key f"
proof -
  have "getTypeDefinition (f\<lparr>legacy := []\<rparr>) = getTypeDefinition f"
    by (cases "ftype f") (simp_all add: getTypeDefinition_def)
  with assms show ?thesis by (simp add: mysqlColumnDef_def Let_def split: option.splits)
qed

lemma colDefLoop_legacy:
  "primary m' = primary m \<Longrightarrow> autoInc m' = autoInc m
   \<Longrightarrow> colDefLoop env m' name columns (map (\<lambda>(key, f). (key, f\<lparr>legacy := []\<rparr>)) fs)
       = colDefLoop env m name columns fs"
proof (induction fs)
  case Nil
  show ?case by simp
next
  case (Cons kf fs)
  obtain key f where kf: "kf = (key, f)" by (cases kf)
  from Cons show ?case by (simp add: kf mysqlColumnDef_legacy split: sum.splits)
qed

lemma getColDefs_legacy:
  "getColDefs env (withoutLegacy m) name columns = getColDefs env m name columns"
proof -
  have "colDefLoop env (withoutLegacy m) name columns (model_fields (withoutLegacy m))
      = colDefLoop env m name columns (model_fields m)"
    by (simp add: withoutLegacy_def colDefLoop_legacy)
  moreover have "primary (withoutLegacy m) = primary m" "unique (withoutLegacy m) = unique m"
    "foreign (withoutLegacy m) = foreign m"
    by (simp_all add: withoutLegacy_def)
  ultimately show ?thesis by (simp only: getColDefs_def)
qed

lemma mysql_prepare_legacy:
  "mysql_prepare env (withoutLegacy m) name d = mysql_prepare env m name d"
  by (simp only: mysql_prepare_def getColDefs_legacy)

lemma rename_plan:
  assumes one: "matchedOneToOne m columns" and plain: "plainNames columns"
  shows "columnDefs (migrationPlan env m columns None) = tempDefs env m columns"
    and "objectKeys (mapping (migrationPlan env m columns None)) = selectedColumns m columns"
    and "\<forall>kf\<in>set (activeFields m). matchedName columns kf \<noteq> fst kf
           \<longrightarrow> shouldMigrate (fieldLoop (env_sql env) (env_literal env) m columns None
                  (model_fields m) emptyPlan)"
proof -
  let ?b = "env_sql env" and ?lit = "env_literal env"
  let ?act = "filter (\<lambda>(key, f). \<not> deprecated f) (model_fields m)"
  let ?q = "fieldLoop ?b ?lit m columns None (model_fields m) emptyPlan"
  let ?p = "migrationPlan env m columns None"
  have act: "activeFields m = ?act" by (simp add: activeFields_def)
  from one have matched: "\<forall>kf\<in>set ?act. matchColumn columns (fst kf) (snd kf) \<noteq> None \<and> fst kf \<noteq> []"
    and inj: "distinct (map (matchedName columns) ?act)"
    and dist: "distinct (map cname columns)"
    and named: "\<forall>c\<in>set columns. cname c \<noteq> []"
    by (auto simp: matchedOneToOne_def act list_all_iff)
  from plain have noindex: "\<forall>c\<in>set columns. arrayIndex (cname c) = None"
    and noproto: "\<forall>c\<in>set columns. cname c \<notin> set objectProtoProps"
    by (auto simp: plainNames_def list_all_iff)
  have live: "\<forall>kf\<in>set ?act. matchedName columns kf \<in> cname ` set columns"
  proof
    fix kf assume "kf \<in> set ?act"
    with matched have "matchColumn columns (fst kf) (snd kf) \<noteq> None" by blast
    then obtain c where c: "matchColumn columns (fst kf) (snd kf) = Some c" by auto
    then have "c \<in> set columns" by (auto simp: matchColumn_def find_Some_iff)
    with c show "matchedName columns kf \<in> cname ` set columns" by (simp add: matchedName_def)
  qed
  have h1: "\<forall>kf\<in>set (model_fields m). \<not> deprecated (snd kf)
      \<longrightarrow> matchColumn columns (fst kf) (snd kf) \<noteq> None"
    using matched by (auto simp: case_prod_beta)
  have h3: "\<forall>kf\<in>set (model_fields m). \<not> deprecated (snd kf)
      \<longrightarrow> matchedName columns kf \<notin> fst ` set (mapping emptyPlan)"
    by (simp add: emptyPlan_def)
  have h4: "\<forall>kf\<in>set (model_fields m). \<not> deprecated (snd kf)
      \<longrightarrow> matchedName columns kf \<noteq> ''__proto__''"
  proof (intro ballI impI)
    fix kf assume "kf \<in> set (model_fields m)" and "\<not> deprecated (snd kf)"
    then have "kf \<in> set ?act" by (simp add: case_prod_beta)
    with live obtain c where "c \<in> set columns" "matchedName columns kf = cname c" by auto
    with noproto proto_inherited show "matchedName columns kf \<noteq> ''__proto__''" by metis
  qed
  note closed = fieldLoop_closed_form [OF h1 inj h3 h4, of ?b ?lit m]
  from closed have defs0: "columnDefs ?q = map (\<lambda>(key, f). columnDef ?b ?lit m key f) ?act"
    and map0: "mapping ?q = map (\<lambda>kf. (matchedName columns kf, fst kf)) ?act"
    by (simp_all add: emptyPlan_def)
  have mig: "\<forall>kf\<in>set (activeFields m). matchedName columns kf \<noteq> fst kf \<longrightarrow> shouldMigrate ?q"
  proof (intro ballI impI)
    fix kf assume "kf \<in> set (activeFields m)" and moved: "matchedName columns kf \<noteq> fst kf"
    then have "kf \<in> set (model_fields m)" and "\<not> deprecated (snd kf)"
      by (auto simp: act)
    with closed moved show "shouldMigrate ?q" by blast
  qed
  have vals: "\<forall>kv\<in>set (mapping ?q). snd kv \<noteq> []"
    using matched by (auto simp: map0)
  note kept = preserveLoop_closed_form [OF dist named vals, of ?b]
  have keys0: "fst ` set (mapping ?q) = matchedName columns ` set ?act"
    by (simp add: map0 image_image)
  have rest: "filter (\<lambda>c. map_of (mapping ?q) (cname c) = None \<and> cname c \<notin> set objectProtoProps) columns
      = unmatchedColumns m columns"
    unfolding unmatchedColumns_def act
    using noproto by (intro filter_cong) (auto simp: map_of_eq_None_iff keys0)
  have p: "?p = preserveLoop ?b None columns ?q" by (simp add: migrationPlan_def)
  from kept have defs: "columnDefs ?p = tempDefs env m columns"
    by (simp add: p defs0 rest tempDefs_def act)
  from kept have mp: "mapping ?p = mapping ?q @ map (\<lambda>c. (cname c, cname c)) (unmatchedColumns m columns)"
    by (simp add: p rest)
  then have names: "map fst (mapping ?p) = selectedColumns m columns"
    by (simp add: map0 selectedColumns_def act comp_def)
  have "\<forall>k\<in>set (selectedColumns m columns). arrayIndex k = None"
  proof
    fix k assume "k \<in> set (selectedColumns m columns)"
    then have "k \<in> cname ` set columns"
      using live by (auto simp: selectedColumns_def act unmatchedColumns_def)
    with noindex show "arrayIndex k = None" by auto
  qed
  then have "\<forall>k\<in>fst ` set (mapping ?p). arrayIndex k = None"
    using names by (metis set_map)
  from objectKeys_plain [OF this] names
  have selected: "objectKeys (mapping ?p) = selectedColumns m columns" by simp
  from defs show "columnDefs (migrationPlan env m columns None) = tempDefs env m columns" .
  from selected
  show "objectKeys (mapping (migrationPlan env m columns None)) = selectedColumns m columns" .
  from mig
  show "\<forall>kf\<in>set (activeFields m). matchedName columns kf \<noteq> fst kf
           \<longrightarrow> shouldMigrate (fieldLoop (env_sql env) (env_literal env) m columns None
                  (model_fields m) emptyPlan)" .
qed

lemma disjoint_images:
  assumes "\<forall>c\<in>C. g c \<notin> f ` A"
  shows "f ` A \<inter> g ` C = {}"
proof (rule ccontr)
  assume "f ` A \<inter> g ` C \<noteq> {}"
  then obtain x where x: "x \<in> f ` A" and "x \<in> g ` C" by blast
  then obtain c where c: "c \<in> C" and "x = g c" by (auto simp: image_iff)
  with x have "g c \<in> f ` A" by simp
  moreover from assms c have "g c \<notin> f ` A" by (rule bspec)
  ultimately show False by simp
qed

lemma rename_columns:
  assumes one: "matchedOneToOne m columns" and shadow: "noFieldShadowed m columns"
  shows "distinct (tempColumns m columns)" and "distinct (selectedColumns m columns)"
proof -
  from one have inj: "distinct (map (matchedName columns) (activeFields m))"
    and keys: "distinct (map fst (model_fields m))"
    and dist: "distinct (map cname columns)"
    by (auto simp: matchedOneToOne_def)
  from keys have k: "distinct (map fst (activeFields m))"
    unfolding activeFields_def by (rule distinct_map_filter)
  from dist have u: "distinct (map cname (unmatchedColumns m columns))"
    unfolding unmatchedColumns_def by (rule distinct_map_filter)
  from shadow have apart: "\<forall>c\<in>set (unmatchedColumns m columns). cname c \<notin> fst ` set (activeFields m)"
    by (simp add: noFieldShadowed_def list_all_iff)
  from apart have "fst ` set (activeFields m) \<inter> cname ` set (unmatchedColumns m columns) = {}"
    by (rule disjoint_images)
  with k u show "distinct (tempColumns m columns)"
    by (simp add: tempColumns_def)
  have "\<forall>c\<in>set (unmatchedColumns m columns). cname c \<notin> matchedName columns ` set (activeFields m)"
    by (simp add: unmatchedColumns_def)
  then have "matchedName columns ` set (activeFields m)
      \<inter> cname ` set (unmatchedColumns m columns) = {}"
    by (rule disjoint_images)
  with inj u show "distinct (selectedColumns m columns)"
    by (simp add: selectedColumns_def)
qed

lemma tempDefs_names:
  "j < length (tempColumns m columns)
   \<Longrightarrow> startsWith (tempDefs env m columns ! j) (escapeId (env_sql env) (tempColumns m columns ! j))"
proof -
  assume j: "j < length (tempColumns m columns)"
  let ?act = "activeFields m" and ?rest = "unmatchedColumns m columns"
  show ?thesis
  proof (cases "j < length ?act")
    case True
    obtain key f where kf: "?act ! j = (key, f)" by (cases "?act ! j")
    from True kf show ?thesis
      by (simp add: tempDefs_def tempColumns_def nth_append startsWith_def columnDef_def Let_def)
  next
    case False
    with j have "j - length ?act < length ?rest" by (simp add: tempColumns_def)
    with False show ?thesis
      by (simp add: tempDefs_def tempColumns_def nth_append startsWith_def preservedDef_def)
  qed
qed

text \<open>
  The live table has the columns \<open>id\<close>, \<open>text\<close> and \<open>caption\<close>; the field
  \<open>text\<close> is declared with the legacy alias \<open>caption\<close>. \<open>prepare\<close> matches
  \<open>text\<close> to the column \<open>text\<close>, the first live column named by the field or its
  alias, and issues nothing: the column \<open>caption\<close> keeps its name.
\<close>

theorem legacy_rename_counterexample:
  "prepare (scripted_env [] [liveColumn ''id'' ''INTEGER'', liveColumn ''text'' ''TEXT'',
               liveColumn ''caption'' ''TEXT'']) []
      caption_model ''bar'' \<lparr>config_path = ''bar.db'', db = 1, writeTask = False, issued = []\<rparr>
   = (Returned (), \<lparr>config_path = ''bar.db'', db = 1, writeTask = False, issued = []\<rparr>)"
  by (simp add: prepare_def prepareSchema_def scripted_env_def caption_model_def plainField_def
      liveColumn_def emptyPlan_def matchColumn_def columnDef_def dropIncludes_def isNullable_def
      setProperty_def specBuilder_def escape_id_def Let_def)

text \<open>
  C5 (amended). SQLite driver. A declared field \<open>key\<close> that is not deprecated is
  matched to the first live column that bears its name or one of its legacy aliases. Let
  that column bear an alias, and let the live table be such that every declared field is
  matched to a column of its own, no unmatched column bears the name of a declared
  field, no column is named by an array index or a property of \<open>Object.prototype\<close>,
  and no migration hook applies. When the engine accepts the four statements of the
  rebuild, \<open>prepare\<close> issues exactly them and returns: the temporary table defines
  the declared columns and then the unmatched live columns, all of distinct names; it is
  filled from as many live columns, position by position, the alias column at the
  position of the column \<open>key\<close>; the old table is dropped and the temporary one takes
  its name. MySQL driver: \<open>prepare\<close> does the same with and without the legacy
  aliases of the model.
\<close>

theorem legacy_rename:
  assumes field: "(key, f) \<in> set (activeFields m)"
    and hit: "matchColumn columns key f = Some c" "cname c = alias" "alias \<noteq> key"
    and one: "matchedOneToOne m columns"
    and shadow: "noFieldShadowed m columns"
    and plain: "plainNames columns"
    and live: "env_table_info env table (db d) = columns"
    and hooks: "list_all (\<lambda>(callback, keys). \<not> before_hook columns keys) migrations"
    and accepted: "execAll (env_exec env) (renameStatements env m table columns) (db d) = Inr database"
  shows "alias \<in> set (legacy f)
       \<and> prepare env migrations m table d
           = (Returned (), d\<lparr>db := database,
                              issued := issued d @ renameStatements env m table columns,
                              writeTask := (config_path d \<noteq> [] \<or> writeTask d)\<rparr>)
       \<and> length (selectedColumns m columns) = length (tempColumns m columns)
       \<and> length (tempDefs env m columns) = length (tempColumns m columns)
       \<and> distinct (tempColumns m columns) \<and> distinct (selectedColumns m columns)
       \<and> (\<forall>j<length (tempColumns m columns).
             startsWith (tempDefs env m columns ! j) (escapeId (env_sql env) (tempColumns m columns ! j)))
       \<and> (\<exists>i<length (tempColumns m columns).
             selectedColumns m columns ! i = alias \<and> tempColumns m columns ! i = key
           \<and> tempDefs env m columns ! i = columnDef (env_sql env) (env_literal env) m key f)
       \<and> mysql_prepare menv (withoutLegacy m) table md = mysql_prepare menv m table md"
proof -
  let ?b = "env_sql env" and ?lit = "env_literal env"
  let ?q = "fieldLoop ?b ?lit m columns None (model_fields m) emptyPlan"
  let ?p = "migrationPlan env m columns None"
  let ?stmts = "renameStatements env m table columns"
  from hit(1) have "c \<in> set columns" "cname c \<in> set (key # legacy f)"
    by (auto simp: matchColumn_def find_Some_iff)
  with hit(2,3) have al: "alias \<in> set (legacy f)" and ne: "columns \<noteq> []" by auto
  from hit have mn: "matchedName columns (key, f) = alias" by (simp add: matchedName_def)
  note plan = rename_plan [OF one plain, of env]
  from plan(3) field mn hit(3) have mig: "shouldMigrate ?q" by force
  have p: "?p = preserveLoop ?b None columns ?q" by (simp add: migrationPlan_def)
  have stmts: "migrateStatements ?b m table ?p = ?stmts"
    by (simp add: migrateStatements_def renameStatements_def plan(1,2) Let_def)
  from ne mig have "prepareSchema env m table columns None d
      = rebuild (env_exec env) ?b m table ?p d"
    by (simp add: prepareSchema_def p Let_def)
  also from accepted have "\<dots> = (Returned (), d\<lparr>db := database, issued := issued d @ ?stmts,
                              writeTask := (config_path d \<noteq> [] \<or> writeTask d)\<rparr>)"
    using rebuild_accepted [of "env_exec env" ?b m table ?p d database] by (simp add: stmts)
  finally have schema: "prepareSchema env m table columns None d
      = (Returned (), d\<lparr>db := database, issued := issued d @ ?stmts,
                         writeTask := (config_path d \<noteq> [] \<or> writeTask d)\<rparr>)" .
  have run: "prepare env migrations m table d
      = (Returned (), d\<lparr>db := database, issued := issued d @ ?stmts,
                         writeTask := (config_path d \<noteq> [] \<or> writeTask d)\<rparr>)"
    by (simp add: prepare_def live schema migrate_none [OF hooks])
  have len: "length (selectedColumns m columns) = length (tempColumns m columns)"
    and len': "length (tempDefs env m columns) = length (tempColumns m columns)"
    by (simp_all add: selectedColumns_def tempColumns_def tempDefs_def)
  note dist = rename_columns [OF one shadow]
  have defs: "\<forall>j<length (tempColumns m columns).
      startsWith (tempDefs env m columns ! j) (escapeId ?b (tempColumns m columns ! j))"
    using tempDefs_names [of _ m columns env] by blast
  from field obtain i where i: "i < length (activeFields m)" "activeFields m ! i = (key, f)"
    unfolding in_set_conv_nth by blast
  then have "i < length (tempColumns m columns)"
    and "selectedColumns m columns ! i = alias" and "tempColumns m columns ! i = key"
    and "tempDefs env m columns ! i = columnDef ?b ?lit m key f"
    by (simp_all add: tempColumns_def selectedColumns_def tempDefs_def nth_append mn)
  then have at: "\<exists>i<length (tempColumns m columns).
             selectedColumns m columns ! i = alias \<and> tempColumns m columns ! i = key
           \<and> tempDefs env m columns ! i = columnDef ?b ?lit m key f"
    by blast
  from al run len len' dist defs at mysql_prepare_legacy [of menv m table md]
  show ?thesis by blast
qed


theorem legacy_rename_witness:
  "prepare (scripted_env [] [(liveColumn ''id'' ''INTEGER'')\<lparr>notnull := 1, pk := True\<rparr>,
                             (liveColumn ''caption'' ''TEXT'')\<lparr>cid := 1\<rparr>,
                             (liveColumn ''note'' ''TEXT'')\<lparr>cid := 2\<rparr>]) []
      caption_model ''bar'' \<lparr>config_path = ''bar.db'', db = 1, writeTask = False, issued = []\<rparr>
   = (Returned (), \<lparr>config_path = ''bar.db'', db = 5, writeTask = True,
        issued = [''CREATE TABLE `bar_temp` (`id` INTEGER NOT NULL PRIMARY KEY AUTOINCREMENT, `text` TEXT NULL, `note` TEXT NULL)'',
                  ''INSERT INTO `bar_temp` SELECT `id`, `caption`, `note` FROM `bar`'',
                  ''DROP TABLE `bar`'',
                  ''ALTER TABLE `bar_temp` RENAME TO `bar`'']\<rparr>)
   \<and> tempColumns caption_model
        [(liveColumn ''id'' ''INTEGER'')\<lparr>notnull := 1, pk := True\<rparr>,
         (liveColumn ''caption'' ''TEXT'')\<lparr>cid := 1\<rparr>, (liveColumn ''note'' ''TEXT'')\<lparr>cid := 2\<rparr>]
      = [''id'', ''text'', ''note'']
   \<and> selectedColumns caption_model
        [(liveColumn ''id'' ''INTEGER'')\<lparr>notnull := 1, pk := True\<rparr>,
         (liveColumn ''caption'' ''TEXT'')\<lparr>cid := 1\<rparr>, (liveColumn ''note'' ''TEXT'')\<lparr>cid := 2\<rparr>]
      = [''id'', ''caption'', ''note'']
   \<and> mysql_prepare (scripted_mysql [] [liveInfo ''id'' ''int'', liveInfo ''caption'' ''varchar''])
        (withoutLegacy caption_model) ''bar'' \<lparr>my_db = 1, queued = []\<rparr>
      = mysql_prepare (scripted_mysql [] [liveInfo ''id'' ''int'', liveInfo ''caption'' ''varchar''])
          caption_model ''bar'' \<lparr>my_db = 1, queued = []\<rparr>"
proof -
  define cols where "cols = [(liveColumn ''id'' ''INTEGER'')\<lparr>notnull := 1, pk := True\<rparr>,
                             (liveColumn ''caption'' ''TEXT'')\<lparr>cid := 1\<rparr>,
                             (liveColumn ''note'' ''TEXT'')\<lparr>cid := 2\<rparr>]"
  define env where "env = scripted_env [] cols"
  define d0 where "d0 = \<lparr>config_path = ''bar.db'', db = 1::nat, writeTask = False, issued = []\<rparr>"
  define menv where "menv = scripted_mysql [] [liveInfo ''id'' ''int'', liveInfo ''caption'' ''varchar'']"
  define md where "md = \<lparr>my_db = 1::nat, queued = []\<rparr>"
  have names: "map cname cols = [''id'', ''caption'', ''note'']"
    by (simp add: cols_def liveColumn_def)
  have h1: "(''text'', plainField TString [''caption'']) \<in> set (activeFields caption_model)"
    by (simp add: activeFields_def caption_model_def plainField_def)
  have h2: "matchColumn cols ''text'' (plainField TString [''caption''])
      = Some ((liveColumn ''caption'' ''TEXT'')\<lparr>cid := 1\<rparr>)"
    by (simp add: matchColumn_def plainField_def liveColumn_def cols_def)
  have h3: "cname ((liveColumn ''caption'' ''TEXT'')\<lparr>cid := 1\<rparr>) = ''caption''"
    by (simp add: liveColumn_def)
  have h4: "''caption'' \<noteq> ''text''" by simp
  have matched: "map (matchedName cols) (activeFields caption_model) = [''id'', ''caption'']"
    by (simp add: activeFields_def caption_model_def plainField_def liveColumn_def cols_def
        matchColumn_def matchedName_def)
  have rest: "unmatchedColumns caption_model cols = [(liveColumn ''note'' ''TEXT'')\<lparr>cid := 2\<rparr>]"
    by (simp add: unmatchedColumns_def matched) (simp add: cols_def liveColumn_def)
  have fields: "map fst (activeFields caption_model) = [''id'', ''text'']"
    by (simp add: activeFields_def caption_model_def plainField_def)
  have h5: "matchedOneToOne caption_model cols"
    unfolding matchedOneToOne_def matched names
    by (simp add: activeFields_def caption_model_def plainField_def liveColumn_def cols_def
        matchColumn_def)
  have h6: "noFieldShadowed caption_model cols"
    by (simp add: noFieldShadowed_def rest fields liveColumn_def)
  have h7: "plainNames cols"
    by (simp add: plainNames_def cols_def liveColumn_def arrayIndex_def isDigit_def
        objectProtoProps_def)
  have h8: "env_table_info env ''bar'' (db d0) = cols"
    by (simp add: env_def scripted_env_def d0_def)
  have h9: "list_all (\<lambda>(callback, keys). \<not> before_hook cols keys) []" by simp
  have temp: "tempColumns caption_model cols = [''id'', ''text'', ''note'']"
    by (simp add: tempColumns_def fields rest liveColumn_def)
  have selected: "selectedColumns caption_model cols = [''id'', ''caption'', ''note'']"
    by (simp add: selectedColumns_def matched rest liveColumn_def)
  have defs: "tempDefs env caption_model cols
      = [''`id` INTEGER NOT NULL PRIMARY KEY AUTOINCREMENT'', ''`text` TEXT NULL'', ''`note` TEXT NULL'']"
    unfolding tempDefs_def rest
    by (simp add: env_def scripted_env_def activeFields_def caption_model_def
        plainField_def liveColumn_def columnDef_def preservedDef_def isNullable_def
        specBuilder_def escape_id_def Let_def)
  have stmts: "renameStatements env caption_model ''bar'' cols
      = [''CREATE TABLE `bar_temp` (`id` INTEGER NOT NULL PRIMARY KEY AUTOINCREMENT, `text` TEXT NULL, `note` TEXT NULL)'',
         ''INSERT INTO `bar_temp` SELECT `id`, `caption`, `note` FROM `bar`'',
         ''DROP TABLE `bar`'',
         ''ALTER TABLE `bar_temp` RENAME TO `bar`'']"
    unfolding renameStatements_def defs selected
    by (simp add: env_def scripted_env_def indexDefs_def caption_model_def specBuilder_def
        escape_id_def)
  have h10: "execAll (env_exec env) (renameStatements env caption_model ''bar'' cols) (db d0) = Inr 5"
    unfolding stmts by (simp add: env_def scripted_env_def counting_engine_def d0_def)
  from legacy_rename [OF h1 h2 h3 h4 h5 h6 h7 h8 h9 h10, of menv md]
  have run: "prepare env [] caption_model ''bar'' d0
      = (Returned (), d0\<lparr>db := 5,
           issued := issued d0 @ renameStatements env caption_model ''bar'' cols,
           writeTask := (config_path d0 \<noteq> [] \<or> writeTask d0)\<rparr>)"
    and my: "mysql_prepare menv (withoutLegacy caption_model) ''bar'' md
      = mysql_prepare menv caption_model ''bar'' md"
    by blast+
  from run have "prepare env [] caption_model ''bar'' d0
      = (Returned (), \<lparr>config_path = ''bar.db'', db = 5, writeTask = True,
           issued = renameStatements env caption_model ''bar'' cols\<rparr>)"
    by (simp add: d0_def)
  with temp selected my show ?thesis
    unfolding stmts by (simp add: env_def cols_def d0_def menv_def md_def)
qed

text \<open>
  The MySQL driver looks a declared field up by its name only: against the live columns
  \<open>id\<close> and \<open>caption\<close> it adds a column \<open>text\<close>.
\<close>

lemma mysql_prepare_ignores_legacy:
  "queued (snd (mysql_prepare (scripted_mysql [] [liveInfo ''id'' ''int'', liveInfo ''caption'' ''varchar''])
      caption_model ''bar'' \<lparr>my_db = 1, queued = []\<rparr>))
   = [''ALTER TABLE ?? ADD `text` varchar('' @ show_nat 255 @ '') null -- bar'']"
  by (simp add: mysql_prepare_def getColDefs_def mysqlColumnDef_def getTypeDefinition_def
      lengthOr_def queue_def scripted_mysql_def caption_model_def plainField_def liveInfo_def
      backtick_def counting_engine_def Let_def)

text \<open>
  A live column named by an array index: the field \<open>text\<close> has the legacy alias
  \<open>7\<close> and the live table the columns \<open>id\<close> and \<open>7\<close>. The temporary table
  defines \<open>id\<close>, then \<open>text\<close>; \<open>Object.keys(mapping)\<close> lists \<open>7\<close> before
  \<open>id\<close>, and the columns are selected in that order.
\<close>

lemma array_index_alias_example:
  "issued (snd (prepare (scripted_env [] [liveColumn ''id'' ''INTEGER'', liveColumn ''7'' ''TEXT'']) []
      (caption_model\<lparr>model_fields := [(''id'', plainField TUnsigned []),
                                       (''text'', plainField TString [''7''])]\<rparr>)
      ''bar'' \<lparr>config_path = ''bar.db'', db = 1, writeTask = False, issued = []\<rparr>))
   = [''CREATE TABLE `bar_temp` (`id` INTEGER NOT NULL PRIMARY KEY AUTOINCREMENT, `text` TEXT NULL)'',
      ''INSERT INTO `bar_temp` SELECT `7`, `id` FROM `bar`'',
      ''DROP TABLE `bar`'',
      ''ALTER TABLE `bar_temp` RENAME TO `bar`'']"
proof -
  have keys: "objectKeys [(''id'', ''id''), (''7'', ''text'')] = [''7'', ''id'']"
    by (simp add: objectKeys_def arrayIndex_def isDigit_def decimal_def Let_def)
  show ?thesis
    by (simp add: prepare_def prepareSchema_def rebuild_def migrateStatements_def keys
        scripted_env_def caption_model_def plainField_def liveColumn_def emptyPlan_def
        matchColumn_def columnDef_def mapped_def dropIncludes_def isNullable_def
        setProperty_def indexDefs_def run_def counting_engine_def specBuilder_def
        escape_id_def Let_def)
qed

end
